theory Spec2Isabelle
  imports Main "HOL-Library.AList"
begin

section \<open>couchdb-promises: the request normalisation layer\<close>

text \<open>
  A shallow embedding of \<^verbatim>\<open>src/index.js\<close>, which holds the two modules of the
  package one after the other: the free-function module (every API function takes
  \<^verbatim>\<open>baseUrl\<close>) and the factory module (\<^verbatim>\<open>module.exports = function (opt)\<close>,
  which captures the base endpoint once).

  JavaScript strings are modelled as \<^typ>\<open>string\<close>: one \<^typ>\<open>char\<close> is one UTF-16 code
  unit below 256, so \<^term>\<open>length\<close> is \<^verbatim>\<open>String.prototype.length\<close> on such strings and a
  code unit from 128 on takes two bytes in UTF-8. Numbers are modelled as integers.
\<close>

subsection \<open>Strings of the runtime\<close>

text \<open>\<^verbatim>\<open>Array.prototype.join\<close> on strings.\<close>

fun join :: "string \<Rightarrow> string list \<Rightarrow> string" where
  "join sep [] = []"
| "join sep [x] = x"
| "join sep (x # y # ys) = x @ sep @ join sep (y # ys)"

definition hex_upper :: "nat \<Rightarrow> char" where
  "hex_upper n = ''0123456789ABCDEF'' ! (n mod 16)"

definition hex_lower :: "nat \<Rightarrow> char" where
  "hex_lower n = ''0123456789abcdef'' ! (n mod 16)"

definition digit_char :: "nat \<Rightarrow> char" where
  "digit_char n = ''0123456789'' ! (n mod 10)"

function show_nat :: "nat \<Rightarrow> string" where
  "show_nat n = (if n < 10 then [digit_char n] else show_nat (n div 10) @ [digit_char n])"
  by pat_completeness auto
termination
  by (relation "measure id") auto

text \<open>\<^verbatim>\<open>'' + n\<close> for an integer-valued number.\<close>

definition show_int :: "int \<Rightarrow> string" where
  "show_int i = (if i < 0 then CHR ''-'' # show_nat (nat (- i)) else show_nat (nat i))"

text \<open>
  \<^verbatim>\<open>Buffer.byteLength(s)\<close> of a string: the length of its UTF-8 encoding.
\<close>

definition utf8_bytes :: "char \<Rightarrow> nat list" where
  "utf8_bytes c =
     (let n = (of_char c :: nat)
      in if n < 128 then [n] else [192 + n div 64, 128 + n mod 64])"

definition byteLength :: "string \<Rightarrow> nat" where
  "byteLength s = length (concat (map utf8_bytes s))"

text \<open>
  \<^verbatim>\<open>encodeURIComponent\<close> and \<^verbatim>\<open>querystring.escape\<close>: every character outside
  \<^verbatim>\<open>A-Z a-z 0-9 - _ . ! ~ * ' ( )\<close> becomes the \<^verbatim>\<open>%XX\<close> of each byte of its UTF-8
  encoding.
\<close>

definition unreserved :: "char \<Rightarrow> bool" where
  "unreserved c \<longleftrightarrow>
     c \<in> set (''ABCDEFGHIJKLMNOPQRSTUVWXYZabcdefghijklmnopqrstuvwxyz0123456789-_.!~*()''
              @ [CHR 0x27])"

definition percent :: "nat \<Rightarrow> string" where
  "percent b = [CHR ''%'', hex_upper (b div 16), hex_upper b]"

definition escape_char :: "char \<Rightarrow> string" where
  "escape_char c = (if unreserved c then [c] else concat (map percent (utf8_bytes c)))"

definition encodeURIComponent :: "string \<Rightarrow> string" where
  "encodeURIComponent s = concat (map escape_char s)"

subsection \<open>JSON values and \<^verbatim>\<open>JSON.stringify\<close>\<close>

text \<open>
  An object is the list of its own enumerable properties in enumeration order, each key
  once.
\<close>

datatype json =
    JNull
  | JBool bool
  | JNum int
  | JStr string
  | JArr "json list"
  | JObj "(string \<times> json) list"

definition json_escape_char :: "char \<Rightarrow> string" where
  "json_escape_char c =
     (let n = (of_char c :: nat)
      in if c = CHR 0x22 then [CHR 0x5C, CHR 0x22]
         else if c = CHR 0x5C then [CHR 0x5C, CHR 0x5C]
         else if n = 8 then [CHR 0x5C, CHR ''b'']
         else if n = 12 then [CHR 0x5C, CHR ''f'']
         else if n = 10 then [CHR 0x5C, CHR ''n'']
         else if n = 13 then [CHR 0x5C, CHR ''r'']
         else if n = 9 then [CHR 0x5C, CHR ''t'']
         else if n < 32 then [CHR 0x5C, CHR ''u'', CHR ''0'', CHR ''0'', hex_lower (n div 16), hex_lower n]
         else [c])"

definition JSON_quote :: "string \<Rightarrow> string" where
  "JSON_quote s = [CHR 0x22] @ concat (map json_escape_char s) @ [CHR 0x22]"

fun JSON_stringify :: "json \<Rightarrow> string" where
  "JSON_stringify JNull = ''null''"
| "JSON_stringify (JBool b) = (if b then ''true'' else ''false'')"
| "JSON_stringify (JNum n) = show_int n"
| "JSON_stringify (JStr s) = JSON_quote s"
| "JSON_stringify (JArr xs) = ''['' @ join '','' (map JSON_stringify xs) @ '']''"
| "JSON_stringify (JObj kvs) =
     ''{'' @ join '','' (map (\<lambda>(k, v). JSON_quote k @ '':'' @ JSON_stringify v) kvs) @ ''}''"

subsection \<open>\<^verbatim>\<open>querystring.stringify\<close>\<close>

text \<open>
  Node's form encoding of an object: one \<^verbatim>\<open>key=value\<close> field per property, an array
  value giving one field per element, the fields joined by \<^verbatim>\<open>&\<close>; keys and values
  are escaped, and a value that is no string, number or boolean is the empty string.
\<close>

definition stringifyPrimitive :: "json \<Rightarrow> string" where
  "stringifyPrimitive v =
     (case v of
        JStr s \<Rightarrow> s
      | JBool b \<Rightarrow> (if b then ''true'' else ''false'')
      | JNum n \<Rightarrow> show_int n
      | _ \<Rightarrow> [])"

definition qs_field :: "string \<Rightarrow> json \<Rightarrow> string" where
  "qs_field k v = encodeURIComponent k @ ''='' @ encodeURIComponent (stringifyPrimitive v)"

definition qs_fields :: "string \<times> json \<Rightarrow> string list" where
  "qs_fields kv =
     (case snd kv of
        JArr xs \<Rightarrow> map (qs_field (fst kv)) xs
      | v \<Rightarrow> [qs_field (fst kv) v])"

definition querystring_stringify :: "(string \<times> json) list \<Rightarrow> string" where
  "querystring_stringify obj = join ''&'' (concat (map qs_fields obj))"

subsection \<open>The query builder\<close>

definition QUERY_KEYS_JSON :: "string list" where
  "QUERY_KEYS_JSON = [''key'', ''keys'', ''startkey'', ''endkey'']"

text \<open>
  One round of the \<^verbatim>\<open>forEach\<close>:
  \<^verbatim>\<open>if (key in obj) { obj[key] = JSON.stringify(obj[key]) }\<close>.
  The assignment keeps the property's place in the enumeration order.
\<close>

definition stringify_key :: "(string \<times> json) list \<Rightarrow> string \<Rightarrow> (string \<times> json) list" where
  "stringify_key obj key =
     (if key \<in> fst ` set obj
      then map (\<lambda>(k, v). if k = key then (k, JStr (JSON_stringify v)) else (k, v)) obj
      else obj)"

text \<open>
  \<^verbatim>\<open>createQueryString\<close> is the same function in both modules. The argument is
  \<^term>\<open>None\<close> when the caller passes no query object: \<^verbatim>\<open>Object.assign({}, undefined)\<close>
  is the empty object.
\<close>

definition createQueryString :: "(string \<times> json) list option \<Rightarrow> string" where
  "createQueryString queryObj =
     (let obj = foldl stringify_key (case queryObj of None \<Rightarrow> [] | Some q \<Rightarrow> q) QUERY_KEYS_JSON
      in if length obj \<noteq> 0 then ''?'' @ querystring_stringify obj else [])"



subsection \<open>Parsed URLs, \<^verbatim>\<open>Number\<close> and \<^verbatim>\<open>parseInt\<close>\<close>

text \<open>
  The object \<^verbatim>\<open>url.parse\<close> returns, with the properties the program reads;
  \<^term>\<open>None\<close> is \<^verbatim>\<open>null\<close>.
\<close>

record url =
  url_protocol :: "string option"
  url_slashes :: "bool option"
  url_auth :: "string option"
  url_host :: "string option"
  url_port :: "string option"
  url_hostname :: "string option"
  url_path :: "string option"

definition is_space :: "char \<Rightarrow> bool" where
  "is_space c \<longleftrightarrow> (of_char c :: nat) \<in> {9, 10, 11, 12, 13, 32, 160}"

definition is_digit :: "char \<Rightarrow> bool" where
  "is_digit c \<longleftrightarrow> 48 \<le> (of_char c :: nat) \<and> (of_char c :: nat) \<le> 57"

definition trim :: "string \<Rightarrow> string" where
  "trim s = rev (dropWhile is_space (rev (dropWhile is_space s)))"

definition exponent_part :: "string \<Rightarrow> bool" where
  "exponent_part r =
     (case r of
        [] \<Rightarrow> True
      | c # t \<Rightarrow>
          (c = CHR ''e'' \<or> c = CHR ''E'') \<and>
          (let ds = (case t of [] \<Rightarrow> [] | d # u \<Rightarrow> if d = CHR ''+'' \<or> d = CHR ''-'' then u else t)
           in ds \<noteq> [] \<and> list_all is_digit ds))"

definition unsigned_decimal :: "string \<Rightarrow> bool" where
  "unsigned_decimal s =
     (s = ''Infinity'' \<or>
      (let ip = takeWhile is_digit s; r = dropWhile is_digit s
       in case r of
            [] \<Rightarrow> ip \<noteq> []
          | c # t \<Rightarrow>
              if c = CHR ''.''
              then (ip \<noteq> [] \<or> takeWhile is_digit t \<noteq> []) \<and> exponent_part (dropWhile is_digit t)
              else ip \<noteq> [] \<and> exponent_part r))"

definition radix_literal :: "string \<Rightarrow> bool" where
  "radix_literal s =
     (case s of
        z # x # ds \<Rightarrow>
          z = CHR ''0'' \<and> ds \<noteq> [] \<and>
          ((x \<in> set ''xX'' \<and> list_all (\<lambda>c. c \<in> set ''0123456789abcdefABCDEF'') ds) \<or>
           (x \<in> set ''oO'' \<and> list_all (\<lambda>c. c \<in> set ''01234567'') ds) \<or>
           (x \<in> set ''bB'' \<and> list_all (\<lambda>c. c \<in> set ''01'') ds))
      | _ \<Rightarrow> False)"

text \<open>
  \<^verbatim>\<open>Number.isNaN(Number(v))\<close> for a string or \<^verbatim>\<open>null\<close>: \<^verbatim>\<open>Number(null)\<close> is 0, the
  empty string is 0, and a string is a number when, trimmed, it is a numeric literal.
\<close>

definition Number_isNaN :: "string option \<Rightarrow> bool" where
  "Number_isNaN v =
     (case v of
        None \<Rightarrow> False
      | Some s \<Rightarrow>
          (let t = trim s;
               u = (case t of [] \<Rightarrow> [] | c # r \<Rightarrow> if c = CHR ''+'' \<or> c = CHR ''-'' then r else t)
           in \<not> (t = [] \<or> radix_literal t \<or> unsigned_decimal u)))"

text \<open>
  \<^verbatim>\<open>Number.isNaN(parseInt(v, 10))\<close>: \<^verbatim>\<open>parseInt\<close> reads the string
  \<^verbatim>\<open>'null'\<close> for \<^verbatim>\<open>null\<close>, skips leading white space and a sign, and needs one digit.
\<close>

definition parseInt_isNaN :: "string option \<Rightarrow> bool" where
  "parseInt_isNaN v =
     (case v of
        None \<Rightarrow> True
      | Some s \<Rightarrow>
          (let t = dropWhile is_space s;
               u = (case t of [] \<Rightarrow> [] | c # r \<Rightarrow> if c = CHR ''+'' \<or> c = CHR ''-'' then r else t)
           in case u of [] \<Rightarrow> True | c # r \<Rightarrow> \<not> is_digit c))"

text \<open>Truthiness of a string or \<^verbatim>\<open>null\<close>/\<^verbatim>\<open>undefined\<close>.\<close>

definition truthy_string :: "string option \<Rightarrow> bool" where
  "truthy_string v = (case v of None \<Rightarrow> False | Some s \<Rightarrow> s \<noteq> [])"

subsection \<open>What the model takes from the Node runtime\<close>

text \<open>
  \<^verbatim>\<open>url.parse\<close>, \<^verbatim>\<open>JSON.parse\<close> (the message of the \<^verbatim>\<open>SyntaxError\<close> on the
  left), the table \<^verbatim>\<open>http.STATUS_CODES\<close>, and what \<^verbatim>\<open>Buffer.byteLength(undefined)\<close>
  does: older runtimes coerce the argument to the string \<^verbatim>\<open>'undefined'\<close> and return 9,
  newer ones throw a \<^verbatim>\<open>TypeError\<close> (\<^term>\<open>None\<close>).
\<close>

record node =
  urlParse :: "string \<Rightarrow> url"
  JSON_parse :: "string \<Rightarrow> string + json"
  STATUS_CODES :: "(nat \<times> string) list"
  byteLength_undefined :: "nat option"

definition isValidUrl :: "node \<Rightarrow> string \<Rightarrow> bool" where
  "isValidUrl rt u =
     (let parsed = urlParse rt u
      in if url_protocol parsed \<notin> {Some ''http:'', Some ''https:''} \<or>
            url_slashes parsed = Some False \<or>
            Number_isNaN (url_port parsed) \<or>
            \<not> truthy_string (url_hostname parsed)
         then False
         else True)"

subsection \<open>Status tables and the status resolver\<close>

definition GENERIC_STATUS_CODES :: "(nat \<times> string) list" where
  "GENERIC_STATUS_CODES =
     [(200, ''OK''),
      (201, ''Created''),
      (202, ''Accepted''),
      (304, ''Not Modified''),
      (400, ''Bad Request''),
      (401, ''Unauthorized''),
      (403, ''Forbidden''),
      (404, ''Not Found''),
      (405, ''Resource Not Allowed''),
      (406, ''Not Acceptable''),
      (409, ''Conflict''),
      (412, ''Precondition Failed''),
      (415, ''Bad Content Type''),
      (416, ''Requested Range Not Satisfiable''),
      (417, ''Expectation Failed''),
      (500, ''Internal Server Error'')]"

text \<open>
  \<^verbatim>\<open>a || b\<close> where \<^verbatim>\<open>a\<close> is a string or \<^verbatim>\<open>undefined\<close>: the empty string is
  falsy, as \<^verbatim>\<open>undefined\<close> is.
\<close>

definition or_string :: "string option \<Rightarrow> string \<Rightarrow> string" where
  "or_string a b = (case a of None \<Rightarrow> b | Some s \<Rightarrow> if s \<noteq> [] then s else b)"

text \<open>
  The free-function module resolves the message in place:
  \<^verbatim>\<open>statusCodes[res.statusCode] || GENERIC_STATUS_CODES[res.statusCode] || 'unknown status'\<close>,
  with \<^verbatim>\<open>statusCodes = param.statusCodes || {}\<close>.
\<close>

definition status_message :: "(nat \<times> string) list option \<Rightarrow> nat \<Rightarrow> string" where
  "status_message statusCodes code =
     (let tbl = (case statusCodes of None \<Rightarrow> [] | Some t \<Rightarrow> t)
      in or_string (map_of tbl code)
           (or_string (map_of GENERIC_STATUS_CODES code) ''unknown status''))"

text \<open>
  The factory module's \<^verbatim>\<open>statusCode\<close>:
  \<^verbatim>\<open>codes = Object.assign({}, http.STATUS_CODES, statusCodes); codes[status] || 'unknown status'\<close>.
\<close>

definition statusCode :: "node \<Rightarrow> (nat \<times> string) list option \<Rightarrow> nat \<Rightarrow> string" where
  "statusCode rt statusCodes status =
     (let codes = map_of (STATUS_CODES rt) ++ map_of (case statusCodes of None \<Rightarrow> [] | Some t \<Rightarrow> t)
      in or_string (codes status) ''unknown status'')"

text \<open>
  A status table is well formed when every message is a non-empty string, as the
  literal tables of the API functions are.
\<close>

definition wf_table :: "(nat \<times> string) list \<Rightarrow> bool" where
  "wf_table tbl = list_all (\<lambda>kv. snd kv \<noteq> []) tbl"

text \<open>The resolver as the specification words it, with the generic table a parameter.\<close>

definition spec_resolve :: "(nat \<times> string) list \<Rightarrow> (nat \<times> string) list option \<Rightarrow> nat \<Rightarrow> string" where
  "spec_resolve generic override code =
     (case (case override of None \<Rightarrow> None | Some t \<Rightarrow> map_of t code) of
        Some m \<Rightarrow> m
      | None \<Rightarrow> (case map_of generic code of Some m \<Rightarrow> m | None \<Rightarrow> ''unknown status''))"

definition wf_codes :: "(nat \<times> string) list option \<Rightarrow> bool" where
  "wf_codes t = (case t of None \<Rightarrow> True | Some tbl \<Rightarrow> wf_table tbl)"

subsection \<open>Request payloads\<close>

text \<open>
  The values a caller can pass as \<^verbatim>\<open>postData\<close>. A readable stream carries the chunks
  it will emit; \<open>PCyclic\<close> is a plain object on which \<^verbatim>\<open>JSON.stringify\<close> throws, with
  the message of the error.
\<close>

datatype post_data =
    PUndefined
  | PNull
  | PBool bool
  | PNum int
  | PStr string
  | PBuffer "nat list"
  | PStream "string list"
  | PObject "(string \<times> json) list"
  | PCyclic string
  | PArray "json list"

definition isBuffer :: "post_data \<Rightarrow> bool" where
  "isBuffer v = (case v of PBuffer b \<Rightarrow> True | _ \<Rightarrow> False)"

definition truthy :: "post_data \<Rightarrow> bool" where
  "truthy v =
     (case v of
        PUndefined \<Rightarrow> False
      | PNull \<Rightarrow> False
      | PBool b \<Rightarrow> b
      | PNum n \<Rightarrow> n \<noteq> 0
      | PStr s \<Rightarrow> s \<noteq> []
      | _ \<Rightarrow> True)"

definition json_truthy :: "json \<Rightarrow> bool" where
  "json_truthy v =
     (case v of
        JNull \<Rightarrow> False
      | JBool b \<Rightarrow> b
      | JNum n \<Rightarrow> n \<noteq> 0
      | JStr s \<Rightarrow> s \<noteq> []
      | _ \<Rightarrow> True)"

text \<open>
  \<^verbatim>\<open>postData.readable\<close> as a condition, and \<^verbatim>\<open>typeof postData._read === 'function'\<close>:
  JSON data holds no function.
\<close>

definition readable :: "post_data \<Rightarrow> bool" where
  "readable v =
     (case v of
        PStream cs \<Rightarrow> True
      | PObject kvs \<Rightarrow> (case map_of kvs ''readable'' of None \<Rightarrow> False | Some x \<Rightarrow> json_truthy x)
      | _ \<Rightarrow> False)"

definition read_is_function :: "post_data \<Rightarrow> bool" where
  "read_is_function v = (case v of PStream cs \<Rightarrow> True | _ \<Rightarrow> False)"

text \<open>\<^verbatim>\<open>Object.prototype.toString.call(v)\<close> and \<^verbatim>\<open>typeof v\<close>.\<close>

definition toStringTag :: "post_data \<Rightarrow> string" where
  "toStringTag v =
     (case v of
        PUndefined \<Rightarrow> ''[object Undefined]''
      | PNull \<Rightarrow> ''[object Null]''
      | PBool b \<Rightarrow> ''[object Boolean]''
      | PNum n \<Rightarrow> ''[object Number]''
      | PStr s \<Rightarrow> ''[object String]''
      | PBuffer b \<Rightarrow> ''[object Uint8Array]''
      | PStream cs \<Rightarrow> ''[object Object]''
      | PObject kvs \<Rightarrow> ''[object Object]''
      | PCyclic e \<Rightarrow> ''[object Object]''
      | PArray xs \<Rightarrow> ''[object Array]'')"

definition typeof :: "post_data \<Rightarrow> string" where
  "typeof v =
     (case v of
        PUndefined \<Rightarrow> ''undefined''
      | PBool b \<Rightarrow> ''boolean''
      | PNum n \<Rightarrow> ''number''
      | PStr s \<Rightarrow> ''string''
      | _ \<Rightarrow> ''object'')"

subsection \<open>The result envelope and the request on the wire\<close>

text \<open>
  What the \<^verbatim>\<open>data\<close> property of an envelope holds: the parsed body, an
  \<^verbatim>\<open>Error\<close> object (by its message), a string, or an object \<^verbatim>\<open>{error: x}\<close>.
\<close>

datatype env_data =
    Parsed json
  | ErrorObject string
  | Text string
  | ErrorProp env_data

text \<open>
  The envelope. \<^term>\<open>None\<close> for \<open>data\<close> and \<open>duration\<close> is an object without
  that property; the value of \<open>duration\<close> is a difference of two clock readings and
  is not modelled.
\<close>

record envelope =
  headers :: "(string \<times> string) list"
  data :: "env_data option"
  status :: nat
  message :: string
  duration :: "unit option"

datatype header_value = HString string | HNumber nat | HUndefined

datatype port_value = PortString string | PortNumber nat | PortNull

text \<open>The \<^verbatim>\<open>httpOptions\<close> object handed to \<^verbatim>\<open>lib.request\<close>.\<close>

record http_options =
  opt_hostname :: "string option"
  opt_port :: port_value
  opt_path :: "string option"
  opt_auth :: "string option"
  opt_protocol :: "string option"
  opt_method :: "string option"
  opt_rejectUnauthorized :: "bool option"
  opt_headers :: "(string \<times> header_value) list"

datatype http_lib = Http | Https

datatype chunk = Bytes "nat list" | Chars string

text \<open>
  One request as the transport sees it: the library chosen by the protocol, the options,
  and the chunks written to the request before it is ended.
\<close>

record wire =
  lib :: http_lib
  options :: http_options
  written :: "chunk list"

text \<open>
  What a call gives back at once: it throws, it returns \<^verbatim>\<open>undefined\<close>, it returns a
  promise already rejected with an envelope (no request issued), it returns a promise
  rejected with an error that is no envelope, or it issues one request and returns a
  pending promise.
\<close>

datatype call =
    Threw string
  | Returned_undefined
  | Rejected_now envelope
  | Rejected_error string
  | Issued wire

subsection \<open>The payload encoder\<close>

text \<open>
  The variables the \<^verbatim>\<open>if\<close> chain over \<^verbatim>\<open>postData\<close> leaves behind: the headers as
  written so far, \<^verbatim>\<open>body\<close>, \<^verbatim>\<open>stream\<close>, \<^verbatim>\<open>error\<close>, and the exception when the chain
  is left by one.
\<close>

record encoded =
  enc_headers :: "(string \<times> header_value) list"
  enc_body :: "chunk option"
  enc_stream :: "string list option"
  enc_error :: "env_data option"
  enc_threw :: "string option"

definition content_type :: "string option \<Rightarrow> header_value" where
  "content_type postContentType = (case postContentType of None \<Rightarrow> HUndefined | Some t \<Rightarrow> HString t)"

definition buffer_bytes :: "post_data \<Rightarrow> nat list" where
  "buffer_bytes v = (case v of PBuffer b \<Rightarrow> b | _ \<Rightarrow> [])"

definition stream_chunks :: "post_data \<Rightarrow> string list" where
  "stream_chunks v = (case v of PStream cs \<Rightarrow> cs | _ \<Rightarrow> [])"

definition string_chars :: "post_data \<Rightarrow> string" where
  "string_chars v = (case v of PStr s \<Rightarrow> s | _ \<Rightarrow> [])"

text \<open>
  \<^verbatim>\<open>JSON.stringify(postData)\<close> in the object branch, the message of the error it
  throws on the left. Only \<open>PObject\<close> and \<open>PCyclic\<close> reach that branch.
\<close>

definition stringify_object :: "post_data \<Rightarrow> string + string" where
  "stringify_object v =
     (case v of
        PObject kvs \<Rightarrow> Inr (JSON_stringify (JObj kvs))
      | PCyclic e \<Rightarrow> Inl e
      | _ \<Rightarrow> Inl [])"

text \<open>
  The \<^verbatim>\<open>if\<close> chain over \<^verbatim>\<open>postData\<close> in the free-function \<^verbatim>\<open>request\<close>. It
  writes the headers and sets \<^verbatim>\<open>body\<close>, \<^verbatim>\<open>stream\<close> and \<^verbatim>\<open>error\<close>. In the object
  branch the content length is computed after the \<^verbatim>\<open>try\<close>, so a serialisation failure
  reaches \<^verbatim>\<open>Buffer.byteLength(undefined)\<close>; the left summand is the exception thrown
  there.
\<close>

definition encode_post_data ::
  "node \<Rightarrow> post_data \<Rightarrow> string option \<Rightarrow> (string \<times> header_value) list \<Rightarrow> encoded" where
  "encode_post_data rt postData postContentType hs =
     (if isBuffer postData then
        \<lparr>enc_headers =
               AList.update ''content-length'' (HNumber (length (buffer_bytes postData)))
                 (AList.update ''content-type'' (content_type postContentType) hs),
             enc_body = Some (Bytes (buffer_bytes postData)),
             enc_stream = None, enc_error = None, enc_threw = None\<rparr>
      else if truthy postData \<and> readable postData \<and> read_is_function postData then
        \<lparr>enc_headers =
               AList.update ''Transfer-Encoding'' (HString ''chunked'')
                 (AList.update ''content-type'' (content_type postContentType) hs),
             enc_body = None,
             enc_stream = Some (stream_chunks postData), enc_error = None, enc_threw = None\<rparr>
      else if toStringTag postData = ''[object Object]'' then
        (case stringify_object postData of
           Inr text \<Rightarrow>
             \<lparr>enc_headers =
                    AList.update ''content-length'' (HNumber (byteLength text))
                      (AList.update ''content-type'' (HString ''application/json'') hs),
                  enc_body = Some (Chars text),
                  enc_stream = None, enc_error = None, enc_threw = None\<rparr>
         | Inl err \<Rightarrow>
             (case byteLength_undefined rt of
                None \<Rightarrow>
                  \<lparr>enc_headers = AList.update ''content-type'' (HString ''application/json'') hs,
                   enc_body = None,
                   enc_stream = None, enc_error = Some (ErrorObject err),
                   enc_threw = Some ''TypeError''\<rparr>
              | Some n \<Rightarrow>
                  \<lparr>enc_headers =
                         AList.update ''content-length'' (HNumber n)
                           (AList.update ''content-type'' (HString ''application/json'') hs),
                       enc_body = None,
                       enc_stream = None, enc_error = Some (ErrorObject err), enc_threw = None\<rparr>))
      else if typeof postData = ''string'' then
        \<lparr>enc_headers =
               AList.update ''content-length'' (HNumber (length (string_chars postData)))
                 (AList.update ''content-type'' (content_type postContentType) hs),
             enc_body = Some (Chars (string_chars postData)),
             enc_stream = None, enc_error = None, enc_threw = None\<rparr>
      else if truthy postData then
        \<lparr>enc_headers = hs, enc_body = None, enc_stream = None,
             enc_error = Some (Text ''unsoported post data''), enc_threw = None\<rparr>
      else
        \<lparr>enc_headers = hs, enc_body = None, enc_stream = None, enc_error = None, enc_threw = None\<rparr>)"

text \<open>
  The same chain in the factory's \<^verbatim>\<open>request\<close>; its last branch is
  \<^verbatim>\<open>else if (postData || postData === null)\<close>.
\<close>

definition encode_post_data_f ::
  "node \<Rightarrow> post_data \<Rightarrow> string option \<Rightarrow> (string \<times> header_value) list \<Rightarrow> encoded" where
  "encode_post_data_f rt postData postContentType hs =
     (if isBuffer postData then
        \<lparr>enc_headers =
               AList.update ''content-length'' (HNumber (length (buffer_bytes postData)))
                 (AList.update ''content-type'' (content_type postContentType) hs),
             enc_body = Some (Bytes (buffer_bytes postData)),
             enc_stream = None, enc_error = None, enc_threw = None\<rparr>
      else if truthy postData \<and> readable postData \<and> read_is_function postData then
        \<lparr>enc_headers =
               AList.update ''Transfer-Encoding'' (HString ''chunked'')
                 (AList.update ''content-type'' (content_type postContentType) hs),
             enc_body = None,
             enc_stream = Some (stream_chunks postData), enc_error = None, enc_threw = None\<rparr>
      else if toStringTag postData = ''[object Object]'' then
        (case stringify_object postData of
           Inr text \<Rightarrow>
             \<lparr>enc_headers =
                    AList.update ''content-length'' (HNumber (byteLength text))
                      (AList.update ''content-type'' (HString ''application/json'') hs),
                  enc_body = Some (Chars text),
                  enc_stream = None, enc_error = None, enc_threw = None\<rparr>
         | Inl err \<Rightarrow>
             (case byteLength_undefined rt of
                None \<Rightarrow>
                  \<lparr>enc_headers = AList.update ''content-type'' (HString ''application/json'') hs,
                   enc_body = None,
                   enc_stream = None, enc_error = Some (ErrorObject err),
                   enc_threw = Some ''TypeError''\<rparr>
              | Some n \<Rightarrow>
                  \<lparr>enc_headers =
                         AList.update ''content-length'' (HNumber n)
                           (AList.update ''content-type'' (HString ''application/json'') hs),
                       enc_body = None,
                       enc_stream = None, enc_error = Some (ErrorObject err), enc_threw = None\<rparr>))
      else if typeof postData = ''string'' then
        \<lparr>enc_headers =
               AList.update ''content-length'' (HNumber (length (string_chars postData)))
                 (AList.update ''content-type'' (content_type postContentType) hs),
             enc_body = Some (Chars (string_chars postData)),
             enc_stream = None, enc_error = None, enc_threw = None\<rparr>
      else if truthy postData \<or> postData = PNull then
        \<lparr>enc_headers = hs, enc_body = None, enc_stream = None,
             enc_error = Some (Text ''unsupported post data''), enc_threw = None\<rparr>
      else
        \<lparr>enc_headers = hs, enc_body = None, enc_stream = None, enc_error = None, enc_threw = None\<rparr>)"

text \<open>
  The end of both \<^verbatim>\<open>request\<close> functions:
  \<^verbatim>\<open>if (body) { req.write(body) } else if (stream) { every chunk is written }\<close>, then
  the request is ended. An empty string is falsy, a buffer is an object.
\<close>

definition chunk_truthy :: "chunk option \<Rightarrow> bool" where
  "chunk_truthy b = (case b of None \<Rightarrow> False | Some (Bytes bs) \<Rightarrow> True | Some (Chars s) \<Rightarrow> s \<noteq> [])"

definition write_out :: "encoded \<Rightarrow> chunk list" where
  "write_out e =
     (if chunk_truthy (enc_body e) then (case enc_body e of Some b \<Rightarrow> [b] | None \<Rightarrow> [])
      else (case enc_stream e of Some cs \<Rightarrow> map Chars cs | None \<Rightarrow> []))"

subsection \<open>The free-function module: \<^verbatim>\<open>request\<close> and \<^verbatim>\<open>requestStream\<close>\<close>

record param =
  p_url :: string
  p_method :: "string option"
  p_statusCodes :: "(nat \<times> string) list option"
  p_postData :: post_data
  p_postContentType :: "string option"

text \<open>\<^verbatim>\<open>o.host && o.host.split(':')[0]\<close>\<close>

definition host_name :: "string option \<Rightarrow> string option" where
  "host_name h =
     (case h of None \<Rightarrow> None | Some s \<Rightarrow> if s = [] then Some [] else Some (takeWhile (\<lambda>c. c \<noteq> CHR '':'') s))"

text \<open>\<^verbatim>\<open>o.port || 443\<close>\<close>

definition port_or_443 :: "string option \<Rightarrow> port_value" where
  "port_or_443 p =
     (case p of None \<Rightarrow> PortNumber 443 | Some s \<Rightarrow> if s \<noteq> [] then PortString s else PortNumber 443)"

definition lib_of :: "string option \<Rightarrow> http_lib" where
  "lib_of proto = (if proto = Some ''https:'' then Https else Http)"

definition bad_request :: envelope where
  "bad_request =
     \<lparr>headers = [], data = Some (ErrorObject ''Bad request''), status = 400,
      message = ''Error: Bad request'', duration = None\<rparr>"

definition request :: "node \<Rightarrow> param \<Rightarrow> call" where
  "request rt prm =
     (let parsed = urlParse rt (p_url prm);
          httpOptions =
            \<lparr>opt_hostname = host_name (url_host parsed),
             opt_port = port_or_443 (url_port parsed),
             opt_path = url_path parsed,
             opt_auth = url_auth parsed,
             opt_protocol = url_protocol parsed,
             opt_method = p_method prm,
             opt_rejectUnauthorized = None,
             opt_headers =
               [(''user-agent'', HString ''couchdb-promises''),
                (''accept'', HString ''application/json'')]\<rparr>
      in if \<not> isValidUrl rt (p_url prm) then Rejected_now bad_request
         else
           (let e = encode_post_data rt (p_postData prm) (p_postContentType prm) (opt_headers httpOptions)
            in case enc_threw e of
                 Some exn \<Rightarrow> Threw exn
               | None \<Rightarrow>
                   (case enc_error e of
                      Some err \<Rightarrow>
                        Rejected_now
                          \<lparr>headers = [], data = Some err, status = 400,
                           message = ''invalid post data'', duration = None\<rparr>
                    | None \<Rightarrow>
                        Issued
                          \<lparr>lib = lib_of (opt_protocol httpOptions),
                           options = httpOptions\<lparr>opt_headers := enc_headers e\<rparr>,
                           written = write_out e\<rparr>)))"

text \<open>
  The writable sink of \<^verbatim>\<open>requestStream\<close>, by what the assertion inspects:
  \<^verbatim>\<open>stream && stream.writable && typeof stream.pipe === 'function'\<close>.
\<close>

record sink =
  writable :: bool
  pipe_is_function :: bool

record stream_param =
  s_url :: string
  s_statusCodes :: "(nat \<times> string) list option"
  s_stream :: "sink option"

definition is_writeable_stream :: "sink option \<Rightarrow> bool" where
  "is_writeable_stream s = (case s of None \<Rightarrow> False | Some k \<Rightarrow> writable k \<and> pipe_is_function k)"

definition requestStream :: "node \<Rightarrow> stream_param \<Rightarrow> call" where
  "requestStream rt prm =
     (if \<not> is_writeable_stream (s_stream prm) then Threw ''AssertionError: is writeable stream''
      else
        (let parsed = urlParse rt (s_url prm);
             httpOptions =
               \<lparr>opt_hostname = host_name (url_host parsed),
                opt_port = port_or_443 (url_port parsed),
                opt_path = url_path parsed,
                opt_auth = url_auth parsed,
                opt_protocol = url_protocol parsed,
                opt_method = Some ''GET'',
                opt_rejectUnauthorized = None,
                opt_headers = [(''user-agent'', HString ''couchdb-promises'')]\<rparr>
         in if \<not> isValidUrl rt (s_url prm) then Rejected_now bad_request
            else Issued \<lparr>lib = lib_of (opt_protocol httpOptions), options = httpOptions, written = []\<rparr>))"

subsection \<open>Promises and the events of one exchange\<close>

text \<open>
  A promise settles once: \<^verbatim>\<open>resolve\<close> and \<^verbatim>\<open>reject\<close> on a settled promise do
  nothing.
\<close>

datatype promise = Pending | Resolved envelope | Rejected envelope

definition resolve :: "envelope \<Rightarrow> promise \<Rightarrow> promise" where
  "resolve v p = (case p of Pending \<Rightarrow> Resolved v | _ \<Rightarrow> p)"

definition reject :: "envelope \<Rightarrow> promise \<Rightarrow> promise" where
  "reject v p = (case p of Pending \<Rightarrow> Rejected v | _ \<Rightarrow> p)"

text \<open>
  What the transport can report to the handlers a call has registered: the response
  arrives (headers and status code), a chunk of its body, the end of its body, the
  timeout set by \<^verbatim>\<open>req.setTimeout\<close>, or an \<^verbatim>\<open>'error'\<close> event with the message of
  the error; and, for an attachment download, the \<^verbatim>\<open>'close'\<close> and \<^verbatim>\<open>'error'\<close>
  events of the caller's sink. The transport is a collaborator: the model takes it to
  accept the options it is handed, and a chunk or an end that comes before the response
  finds no handler.
\<close>

datatype event =
    Response "(string \<times> string) list" nat
  | Data string
  | End
  | Timeout
  | Error string
  | Sink_close
  | Sink_error string

text \<open>
  The state of one call of \<^verbatim>\<open>request\<close>: the response once the callback has run, the
  text accumulated in \<^verbatim>\<open>buffer\<close>, and the promise.
\<close>

record exchange =
  res :: "((string \<times> string) list \<times> nat) option"
  buffer :: string
  settled :: promise

definition started :: exchange where
  "started = \<lparr>res = None, buffer = [], settled = Pending\<rparr>"

text \<open>The envelope built in the \<^verbatim>\<open>'end'\<close> handler of the free-function \<^verbatim>\<open>request\<close>.\<close>

definition end_envelope ::
  "node \<Rightarrow> (nat \<times> string) list option \<Rightarrow> (string \<times> string) list \<Rightarrow> nat \<Rightarrow> string \<Rightarrow> envelope" where
  "end_envelope rt statusCodes hs code buf =
     (case JSON_parse rt (if buf \<noteq> [] then buf else ''{}'') of
        Inr v \<Rightarrow>
          \<lparr>headers = hs, data = Some (Parsed v), status = code,
           message = status_message statusCodes code, duration = None\<rparr>
      | Inl err \<Rightarrow>
          \<lparr>headers = hs, data = Some (ErrorObject err), status = 500,
           message = or_string (Some err) ''internal error'', duration = None\<rparr>)"

definition timed_out :: envelope where
  "timed_out =
     \<lparr>headers = [], data = Some (ErrorObject ''request timed out''), status = 500,
      message = ''Error: request timed out'', duration = None\<rparr>"

definition transport_error :: "string \<Rightarrow> envelope" where
  "transport_error err =
     \<lparr>headers = [], data = Some (ErrorObject err), status = 500,
      message = or_string (Some err) ''internal error'', duration = None\<rparr>"

text \<open>
  One event on a call of the free-function \<^verbatim>\<open>request\<close>. The \<^verbatim>\<open>'end'\<close> handler
  resolves with the envelope whatever its status.
\<close>

definition request_event ::
  "node \<Rightarrow> (nat \<times> string) list option \<Rightarrow> exchange \<Rightarrow> event \<Rightarrow> exchange" where
  "request_event rt statusCodes x ev =
     (case ev of
        Response hs code \<Rightarrow> x\<lparr>res := Some (hs, code), buffer := []\<rparr>
      | Data d \<Rightarrow> (case res x of None \<Rightarrow> x | Some r \<Rightarrow> x\<lparr>buffer := buffer x @ d\<rparr>)
      | End \<Rightarrow>
          (case res x of
             None \<Rightarrow> x
           | Some r \<Rightarrow>
               x\<lparr>settled := resolve (end_envelope rt statusCodes (fst r) (snd r) (buffer x)) (settled x)\<rparr>)
      | Timeout \<Rightarrow> x\<lparr>settled := reject timed_out (settled x)\<rparr>
      | Error err \<Rightarrow> x\<lparr>settled := reject (transport_error err) (settled x)\<rparr>
      | _ \<Rightarrow> x)"

text \<open>
  One event on a call of the free-function \<^verbatim>\<open>requestStream\<close>: the response is piped
  into the sink and the promise settles on the status alone, with an envelope that has no
  \<^verbatim>\<open>data\<close>.
\<close>

definition stream_envelope :: "(nat \<times> string) list option \<Rightarrow> (string \<times> string) list \<Rightarrow> nat \<Rightarrow> envelope" where
  "stream_envelope statusCodes hs code =
     \<lparr>headers = hs, data = None, status = code,
      message = status_message statusCodes code, duration = None\<rparr>"

definition requestStream_event ::
  "(nat \<times> string) list option \<Rightarrow> promise \<Rightarrow> event \<Rightarrow> promise" where
  "requestStream_event statusCodes p ev =
     (case ev of
        Response hs code \<Rightarrow>
          (if code < 400 then resolve (stream_envelope statusCodes hs code) p
           else reject (stream_envelope statusCodes hs code) p)
      | Timeout \<Rightarrow> reject timed_out p
      | Error err \<Rightarrow> reject (transport_error err) p
      | _ \<Rightarrow> p)"

subsection \<open>The factory module\<close>

text \<open>
  The argument of the factory, by its three properties (\<^term>\<open>None\<close>: not given), and
  the \<^verbatim>\<open>config\<close> object after \<^verbatim>\<open>Object.assign(config, opt)\<close>.
\<close>

record opt =
  baseUrl :: "string option"
  requestTimeout :: "nat option"
  verifyCertificate :: "bool option"

record config =
  cfg_requestTimeout :: nat
  cfg_verifyCertificate :: bool
  cfg_baseUrl :: "string option"

text \<open>
  What the closure of a constructed client holds: \<^verbatim>\<open>config\<close>, and the one
  \<^verbatim>\<open>httpOptions\<close> object every call of the client writes to.
\<close>

record client =
  client_config :: config
  httpOptions :: http_options

definition missing_baseUrl :: string where
  "missing_baseUrl = ''missing property '' @ [CHR 0x22] @ ''baseUrl'' @ [CHR 0x22]"

text \<open>
  \<^verbatim>\<open>module.exports = function (opt)\<close>: the message of the \<^verbatim>\<open>Error\<close> it throws
  on the left, the client on the right.
\<close>

definition factory :: "node \<Rightarrow> opt \<Rightarrow> string + client" where
  "factory rt op =
     (let cfg =
            \<lparr>cfg_requestTimeout = (case requestTimeout op of None \<Rightarrow> 10000 | Some t \<Rightarrow> t),
             cfg_verifyCertificate = (case verifyCertificate op of None \<Rightarrow> True | Some b \<Rightarrow> b),
             cfg_baseUrl = baseUrl op\<rparr>
      in case cfg_baseUrl cfg of
           None \<Rightarrow> Inl missing_baseUrl
         | Some b \<Rightarrow>
             (let parsed = urlParse rt b
              in if \<not> (url_protocol parsed \<in> {Some ''http:'', Some ''https:''} \<and>
                        url_slashes parsed = Some True \<and>
                        \<not> parseInt_isNaN (url_port parsed) \<and>
                        truthy_string (url_hostname parsed))
                 then Inl ''invalid baseUrl''
                 else
                   Inr \<lparr>client_config = cfg,
                        httpOptions =
                          \<lparr>opt_hostname = host_name (url_host parsed),
                           opt_port = (case url_port parsed of None \<Rightarrow> PortNull | Some p \<Rightarrow> PortString p),
                           opt_path = None,
                           opt_auth = url_auth parsed,
                           opt_protocol = url_protocol parsed,
                           opt_method = None,
                           opt_rejectUnauthorized = Some (cfg_verifyCertificate cfg),
                           opt_headers =
                             [(''user-agent'', HString ''couchdb-promises''),
                              (''accept'', HString ''application/json'')]\<rparr>\<rparr>))"

record fparam =
  f_path :: string
  f_method :: "string option"
  f_statusCodes :: "(nat \<times> string) list option"
  f_postData :: post_data
  f_postContentType :: "string option"
  f_Destination :: "string option"

text \<open>
  The factory's \<^verbatim>\<open>request\<close>. It writes method, path and headers to the client's
  \<^verbatim>\<open>httpOptions\<close>, so the client after the call is part of the result. There is no
  check of the URL here: the constructor has made it.
\<close>

definition request_f :: "node \<Rightarrow> client \<Rightarrow> fparam \<Rightarrow> call \<times> client" where
  "request_f rt c prm =
     (let h1 = (httpOptions c)\<lparr>opt_method := f_method prm, opt_path := Some (''/'' @ f_path prm)\<rparr>;
          h2 = (if truthy_string (f_Destination prm)
                then h1\<lparr>opt_headers :=
                          AList.update ''Destination''
                            (case f_Destination prm of None \<Rightarrow> HUndefined | Some d \<Rightarrow> HString d)
                            (opt_headers h1)\<rparr>
                else h1);
          e = encode_post_data_f rt (f_postData prm) (f_postContentType prm) (opt_headers h2);
          h3 = h2\<lparr>opt_headers := enc_headers e\<rparr>;
          c' = c\<lparr>httpOptions := h3\<rparr>
      in case enc_threw e of
           Some exn \<Rightarrow> (Threw exn, c')
         | None \<Rightarrow>
             (case enc_error e of
                Some err \<Rightarrow>
                  (Rejected_now
                     \<lparr>headers = [], data = Some (ErrorProp err), status = 400,
                      message = ''invalid post data'', duration = Some ()\<rparr>, c')
              | None \<Rightarrow>
                  (Issued \<lparr>lib = lib_of (opt_protocol h3), options = h3, written = write_out e\<rparr>, c')))"

record fstream_param =
  fs_path :: string
  fs_statusCodes :: "(nat \<times> string) list option"
  fs_stream :: "sink option"

definition requestStream_f :: "node \<Rightarrow> client \<Rightarrow> fstream_param \<Rightarrow> call \<times> client" where
  "requestStream_f rt c prm =
     (if \<not> is_writeable_stream (fs_stream prm) then (Threw ''AssertionError: is writeable stream'', c)
      else
        (let h1 = (httpOptions c)\<lparr>opt_method := Some ''GET'', opt_path := Some (''/'' @ fs_path prm)\<rparr>
         in (Issued \<lparr>lib = lib_of (opt_protocol h1), options = h1, written = []\<rparr>,
             c\<lparr>httpOptions := h1\<rparr>)))"

text \<open>The envelopes and the event handlers of the factory's two executors.\<close>

definition end_envelope_f ::
  "node \<Rightarrow> (nat \<times> string) list option \<Rightarrow> (string \<times> string) list \<Rightarrow> nat \<Rightarrow> string \<Rightarrow> envelope" where
  "end_envelope_f rt statusCodes hs code buf =
     (case JSON_parse rt (if buf \<noteq> [] then buf else ''{}'') of
        Inr v \<Rightarrow>
          \<lparr>headers = hs, data = Some (Parsed v), status = code,
           message = statusCode rt statusCodes code, duration = Some ()\<rparr>
      | Inl err \<Rightarrow>
          \<lparr>headers = hs, data = Some (ErrorProp (Text err)), status = 500,
           message = or_string (Some err) ''internal error'', duration = Some ()\<rparr>)"

definition timed_out_f :: envelope where
  "timed_out_f =
     \<lparr>headers = [], data = Some (ErrorProp (Text ''request timed out'')), status = 500,
      message = ''Error: request timed out'', duration = Some ()\<rparr>"

definition transport_error_f :: "string \<Rightarrow> envelope" where
  "transport_error_f err =
     \<lparr>headers = [], data = Some (ErrorProp (ErrorObject err)), status = 500,
      message = or_string (Some err) ''internal error'', duration = Some ()\<rparr>"

definition settle_by_status :: "envelope \<Rightarrow> promise \<Rightarrow> promise" where
  "settle_by_status ret p = (if status ret < 400 then resolve ret p else reject ret p)"

definition request_f_event ::
  "node \<Rightarrow> (nat \<times> string) list option \<Rightarrow> exchange \<Rightarrow> event \<Rightarrow> exchange" where
  "request_f_event rt statusCodes x ev =
     (case ev of
        Response hs code \<Rightarrow> x\<lparr>res := Some (hs, code), buffer := []\<rparr>
      | Data d \<Rightarrow> (case res x of None \<Rightarrow> x | Some r \<Rightarrow> x\<lparr>buffer := buffer x @ d\<rparr>)
      | End \<Rightarrow>
          (case res x of
             None \<Rightarrow> x
           | Some r \<Rightarrow>
               x\<lparr>settled :=
                   settle_by_status (end_envelope_f rt statusCodes (fst r) (snd r) (buffer x)) (settled x)\<rparr>)
      | Timeout \<Rightarrow> x\<lparr>settled := reject timed_out_f (settled x)\<rparr>
      | Error err \<Rightarrow> x\<lparr>settled := reject (transport_error_f err) (settled x)\<rparr>
      | _ \<Rightarrow> x)"



subsection \<open>Whole exchanges\<close>

text \<open>
  The handlers of one call run over the events the transport reports, in order; a call
  of \<^verbatim>\<open>request\<close> starts with no response, an empty buffer and a pending promise.
\<close>

definition run_request :: "node \<Rightarrow> (nat \<times> string) list option \<Rightarrow> event list \<Rightarrow> promise" where
  "run_request rt statusCodes evs = settled (foldl (request_event rt statusCodes) started evs)"

definition run_request_f :: "node \<Rightarrow> (nat \<times> string) list option \<Rightarrow> event list \<Rightarrow> promise" where
  "run_request_f rt statusCodes evs = settled (foldl (request_f_event rt statusCodes) started evs)"

definition run_requestStream :: "(nat \<times> string) list option \<Rightarrow> event list \<Rightarrow> promise" where
  "run_requestStream statusCodes evs = foldl (requestStream_event statusCodes) Pending evs"


text \<open>The envelope a promise has settled with, on either channel.\<close>

definition outcome :: "promise \<Rightarrow> envelope option" where
  "outcome p = (case p of Pending \<Rightarrow> None | Resolved v \<Rightarrow> Some v | Rejected v \<Rightarrow> Some v)"

text \<open>An exchange that completes: the response, the chunks of its body, the end.\<close>

definition completes :: "(string \<times> string) list \<Rightarrow> nat \<Rightarrow> string list \<Rightarrow> event list" where
  "completes hs code chunks = Response hs code # map Data chunks @ [End]"

subsection \<open>A sample runtime\<close>

text \<open>
  One runtime for the closed examples. Its \<^verbatim>\<open>url.parse\<close> reads URLs of the shape
  \<^verbatim>\<open>scheme://[auth@]hostname[:port][path]\<close> as Node does and gives every other string
  back as a path; its \<^verbatim>\<open>JSON.parse\<close> knows the texts listed; its status table is an
  excerpt of \<^verbatim>\<open>http.STATUS_CODES\<close>. The general theorems hold for every runtime.
\<close>

definition after_last :: "char \<Rightarrow> string \<Rightarrow> string" where
  "after_last c s = rev (takeWhile (\<lambda>x. x \<noteq> c) (rev s))"

definition before_last :: "char \<Rightarrow> string \<Rightarrow> string" where
  "before_last c s = rev (drop 1 (dropWhile (\<lambda>x. x \<noteq> c) (rev s)))"

definition sample_urlParse :: "string \<Rightarrow> url" where
  "sample_urlParse u =
     (let scheme = takeWhile (\<lambda>c. c \<noteq> CHR '':'') u;
          rest = dropWhile (\<lambda>c. c \<noteq> CHR '':'') u;
          r = drop 3 rest;
          authority = takeWhile (\<lambda>c. c \<notin> set ''/?#'') r;
          tail = takeWhile (\<lambda>c. c \<noteq> CHR ''#'') (dropWhile (\<lambda>c. c \<notin> set ''/?#'') r);
          hostport = after_last CHR ''@'' authority;
          hostname = takeWhile (\<lambda>c. c \<noteq> CHR '':'') hostport;
          digits = drop 1 (dropWhile (\<lambda>c. c \<noteq> CHR '':'') hostport)
      in if take 3 rest = ''://'' \<and> scheme \<noteq> [] \<and>
            (if CHR '':'' \<in> set hostport then digits \<noteq> [] \<and> list_all is_digit digits else True)
         then
           \<lparr>url_protocol = Some (scheme @ '':''),
                url_slashes = Some True,
                url_auth = (if CHR ''@'' \<in> set authority then Some (before_last CHR ''@'' authority) else None),
                url_host = (if hostport = [] then None else Some hostport),
                url_port = (if digits \<noteq> [] \<and> list_all is_digit digits then Some digits else None),
                url_hostname = (if hostname = [] then None else Some hostname),
                url_path = Some (if tail = [] then ''/'' else tail)\<rparr>
         else
           \<lparr>url_protocol = None, url_slashes = None, url_auth = None, url_host = None,
            url_port = None, url_hostname = None, url_path = Some u\<rparr>)"

definition not_found_body :: string where
  "not_found_body =
     ''{'' @ [CHR 0x22] @ ''error'' @ [CHR 0x22] @ '':'' @ [CHR 0x22] @ ''not_found'' @ [CHR 0x22] @ ''}''"

definition sample_JSON_parse :: "string \<Rightarrow> string + json" where
  "sample_JSON_parse s =
     (case map_of
             [(''{}'', JObj []),
              (''[]'', JArr []),
              (''null'', JNull),
              (''true'', JBool True),
              (''42'', JNum 42),
              (not_found_body, JObj [(''error'', JStr ''not_found'')])] s of
        Some v \<Rightarrow> Inr v
      | None \<Rightarrow> Inl ''Unexpected token in JSON'')"

definition sample_node :: node where
  "sample_node =
     \<lparr>urlParse = sample_urlParse,
      JSON_parse = sample_JSON_parse,
      STATUS_CODES =
        [(200, ''OK''), (201, ''Created''), (202, ''Accepted''), (304, ''Not Modified''),
         (400, ''Bad Request''), (401, ''Unauthorized''), (403, ''Forbidden''),
         (404, ''Not Found''), (409, ''Conflict''), (412, ''Precondition Failed''),
         (500, ''Internal Server Error'')],
      byteLength_undefined = Some 9\<rparr>"

subsection \<open>The status tables of the API functions\<close>

text \<open>
  The literal \<^verbatim>\<open>statusCodes\<close> objects. Both modules use the same tables, and API
  functions share some of them. Two characters of the messages lie beyond code unit 255,
  the en dash (U+2013) and the right single quotation mark (U+2019); they stand here as
  their UTF-8 bytes. The program never looks into a message.
\<close>

definition en_dash :: string where
  "en_dash = [CHR 0xE2, CHR 0x80, CHR 0x93]"

definition right_quote :: string where
  "right_quote = [CHR 0xE2, CHR 0x80, CHR 0x99]"

definition codes_ok :: "(nat \<times> string) list" where
  "codes_ok =
     [(200, ''OK - Request completed successfully'')]"

definition codes_createDatabase :: "(nat \<times> string) list" where
  "codes_createDatabase =
     [(201, ''Created - Database created successfully''),
      (400, ''Bad Request - Invalid database name''),
      (401, ''Unauthorized - CouchDB Server Administrator privileges required''),
      (412, ''Precondition Failed - Database already exists'')]"

definition codes_getDatabase :: "(nat \<times> string) list" where
  "codes_getDatabase =
     [(200, ''OK - Request completed successfully''),
      (404, ''Not Found '' @ en_dash @ '' Requested database not found'')]"

definition codes_getDatabaseHead :: "(nat \<times> string) list" where
  "codes_getDatabaseHead =
     [(200, ''OK - Database exists''),
      (404, ''Not Found '' @ en_dash @ '' Requested database not found'')]"

definition codes_deleteDatabase :: "(nat \<times> string) list" where
  "codes_deleteDatabase =
     [(200, ''OK - Database removed successfully''),
      (400, ''Bad Request - Invalid database name or forgotten document id by accident''),
      (401, ''Unauthorized - CouchDB Server Administrator privileges required''),
      (404, ''Not Found - Database doesn'' @ right_quote @ ''t exist'')]"

definition codes_getDocumentHead :: "(nat \<times> string) list" where
  "codes_getDocumentHead =
     [(200, ''OK - Document exists''),
      (304, ''Not Modified - Document wasn'' @ right_quote @ ''t modified since specified revision''),
      (401, ''Unauthorized - Read privilege required''),
      (404, ''Not Found - Document not found'')]"

definition codes_getDocument :: "(nat \<times> string) list" where
  "codes_getDocument =
     [(200, ''OK - Request completed successfully''),
      (304, ''Not Modified - Document wasn'' @ right_quote @ ''t modified since specified revision''),
      (400, ''Bad Request - The format of the request or revision was invalid''),
      (401, ''Unauthorized - Read privilege required''),
      (404, ''Not Found - Document not found'')]"

definition codes_putDocument :: "(nat \<times> string) list" where
  "codes_putDocument =
     [(201, ''Created '' @ en_dash @ '' Document created and stored on disk''),
      (202, ''Accepted '' @ en_dash @ '' Document data accepted, but not yet stored on disk''),
      (400, ''Bad Request '' @ en_dash @ '' Invalid request body or parameters''),
      (401, ''Unauthorized '' @ en_dash @ '' Write privileges required''),
      (404, ''Not Found '' @ en_dash @ '' Specified database or document ID doesn'' @ right_quote @ ''t exists''),
      (409, ''Conflict '' @ en_dash @ '' Document with the specified ID already exists or specified revision is not latest for target document'')]"

definition codes_postDocument :: "(nat \<times> string) list" where
  "codes_postDocument =
     [(201, ''Created '' @ en_dash @ '' Document created and stored on disk''),
      (202, ''Accepted '' @ en_dash @ '' Document data accepted, but not yet stored on disk''),
      (400, ''Bad Request '' @ en_dash @ '' Invalid database name''),
      (401, ''Unauthorized '' @ en_dash @ '' Write privileges required''),
      (404, ''Not Found '' @ en_dash @ '' Database doesn'' @ right_quote @ ''t exists''),
      (409, ''Conflict '' @ en_dash @ '' A Conflicting Document with same ID already exists'')]"

definition codes_deleteDocument :: "(nat \<times> string) list" where
  "codes_deleteDocument =
     [(200, ''OK - Document successfully removed''),
      (202, ''Accepted - Request was accepted, but changes are not yet stored on disk''),
      (400, ''Bad Request - Invalid request body or parameters''),
      (401, ''Unauthorized - Write privilege required''),
      (404, ''Not Found - Specified database or document ID doesn't exist''),
      (409, ''Conflict - Specified revision is not the latest for target document'')]"

definition codes_findDocuments :: "(nat \<times> string) list" where
  "codes_findDocuments =
     [(200, ''OK - Request completed successfully''),
      (400, ''Bad Request - Invalid request''),
      (401, ''Unauthorized - Read permission required''),
      (500, ''Internal Server Error - Query execution error'')]"

definition codes_getUuids :: "(nat \<times> string) list" where
  "codes_getUuids =
     [(200, ''OK - Request completed successfully''),
      (403, ''Forbidden '' @ en_dash @ '' Requested more UUIDs than is allowed to retrieve'')]"

definition codes_createBulkDocuments :: "(nat \<times> string) list" where
  "codes_createBulkDocuments =
     [(201, ''Created '' @ en_dash @ '' Document(s) have been created or updated''),
      (400, ''Bad Request '' @ en_dash @ '' The request provided invalid JSON data''),
      (417, ''Expectation Failed '' @ en_dash @ '' Occurs when all_or_nothing option set as true and at least one document was rejected by validation function''),
      (500, ''Internal Server Error '' @ en_dash @ '' Malformed data provided, while it'' @ right_quote @ ''s still valid JSON'')]"

definition codes_attachment :: "(nat \<times> string) list" where
  "codes_attachment =
     [(200, ''OK - Attachment exists''),
      (304, ''Not Modified - Attachment wasn'' @ right_quote @ ''t modified if ETag equals specified If-None-Match header''),
      (401, ''Unauthorized - Read privilege required''),
      (404, ''Not Found - Specified database, document or attchment was not found'')]"

definition codes_addAttachment :: "(nat \<times> string) list" where
  "codes_addAttachment =
     [(201, ''OK - Created''),
      (202, ''Accepted - Request was but changes are not yet stored on disk''),
      (401, ''Unauthorized - Write privilege required''),
      (404, ''Not Found - Specified database, document or attchment was not found''),
      (409, ''409 Conflict '' @ en_dash @ '' Document'' @ right_quote @ ''s revision wasn'' @ right_quote @ ''t specified or it'' @ right_quote @ ''s not the latest'')]"

definition codes_deleteAttachment :: "(nat \<times> string) list" where
  "codes_deleteAttachment =
     [(200, ''OK '' @ en_dash @ '' Attachment successfully removed''),
      (202, ''Accepted - Request was but changes are not yet stored on disk''),
      (400, ''400 Bad Request '' @ en_dash @ '' Invalid request body or parameters''),
      (401, ''Unauthorized - Write privilege required''),
      (404, ''Not Found - Specified database, document or attchment was not found''),
      (409, ''409 Conflict '' @ en_dash @ '' Document'' @ right_quote @ ''s revision wasn'' @ right_quote @ ''t specified or it'' @ right_quote @ ''s not the latest'')]"

definition codes_createIndex :: "(nat \<times> string) list" where
  "codes_createIndex =
     [(200, ''OK - Index created successfully or already exists''),
      (400, ''Bad Request - Invalid request''),
      (401, ''Unauthorized - Admin permission required''),
      (500, ''Internal Server Error - Execution error'')]"

definition codes_getIndex :: "(nat \<times> string) list" where
  "codes_getIndex =
     [(200, ''OK - Success''),
      (400, ''Bad Request - Invalid request''),
      (401, ''Unauthorized - Read permission required''),
      (500, ''Internal Server Error - Execution error'')]"

definition codes_deleteIndex :: "(nat \<times> string) list" where
  "codes_deleteIndex =
     [(200, ''OK - Success''),
      (400, ''Bad Request - Invalid request''),
      (401, ''Unauthorized - Writer permission required''),
      (404, ''Not Found - Index not found''),
      (500, ''Internal Server Error - Execution error'')]"

subsection \<open>The API surface\<close>

text \<open>
  One constructor per API function, with the function's arguments but the base URL and
  the client. An optional argument that is not passed is \<^term>\<open>None\<close>; names are
  strings. \<open>CopyDocument\<close>, \<open>FindDocuments\<close>, \<open>CreateIndex\<close>, \<open>GetIndex\<close>,
  \<open>DeleteIndex\<close> and \<open>GetUrlPath\<close> exist in the factory module only.
\<close>

datatype api_call =
    GetInfo
  | ListDatabases
  | CreateDatabase string
  | GetDatabase string
  | GetDatabaseHead string
  | DeleteDatabase string
  | GetAllDocuments string "(string \<times> json) list option"
  | GetDocumentHead string string "(string \<times> json) list option"
  | GetDocument string string "(string \<times> json) list option"
  | CopyDocument string string string
  | CreateDocument string post_data "string option"
  | DeleteDocument string string string
  | FindDocuments string post_data
  | GetUuids "int option"
  | GetDesignDocument string string "(string \<times> json) list option"
  | GetDesignDocumentInfo string string
  | CreateDesignDocument string post_data string
  | DeleteDesignDocument string string string
  | GetView string string string "(string \<times> json) list option"
  | CreateBulkDocuments string json "(string \<times> json) list option"
  | GetAttachmentHead string string string "string option"
  | GetAttachment string string string "sink option" "string option"
  | AddAttachment string string string "string option" "string option" post_data
  | DeleteAttachment string string string "string option"
  | CreateIndex string post_data
  | GetIndex string
  | DeleteIndex string string string
  | GetUrlPath string

text \<open>\<^verbatim>\<open>rev ? `?rev=${rev}` : ''\<close> and \<^verbatim>\<open>count || 1\<close> in a template.\<close>

definition rev_query :: "string option \<Rightarrow> string" where
  "rev_query rv = (case rv of None \<Rightarrow> [] | Some r \<Rightarrow> if r \<noteq> [] then ''?rev='' @ r else [])"

definition count_or_1 :: "int option \<Rightarrow> string" where
  "count_or_1 count = (case count of None \<Rightarrow> ''1'' | Some n \<Rightarrow> if n \<noteq> 0 then show_int n else ''1'')"

text \<open>\<^verbatim>\<open>obj = {docs: docs}; Object.assign(obj, opts)\<close>\<close>

definition bulk_object :: "json \<Rightarrow> (string \<times> json) list option \<Rightarrow> (string \<times> json) list" where
  "bulk_object docs opts =
     foldl (\<lambda>obj kv. AList.update (fst kv) (snd kv) obj) [(''docs'', docs)]
       (case opts of None \<Rightarrow> [] | Some kvs \<Rightarrow> kvs)"

text \<open>
  The free-function module: the object each API function hands to \<^verbatim>\<open>request\<close> or to
  \<^verbatim>\<open>requestStream\<close>.
\<close>

datatype descriptor = Buffered param | Streamed stream_param | Not_exported

primrec free_api :: "string \<Rightarrow> api_call \<Rightarrow> descriptor" where
  "free_api base GetInfo =
     Buffered \<lparr>p_url = base @ ''/'', p_method = Some ''GET'', p_statusCodes = Some codes_ok,
               p_postData = PUndefined, p_postContentType = None\<rparr>"
| "free_api base ListDatabases =
     Buffered \<lparr>p_url = base @ ''/_all_dbs'', p_method = Some ''GET'', p_statusCodes = Some codes_ok,
               p_postData = PUndefined, p_postContentType = None\<rparr>"
| "free_api base (CreateDatabase dbName) =
     Buffered \<lparr>p_url = base @ ''/'' @ encodeURIComponent dbName, p_method = Some ''PUT'',
               p_statusCodes = Some codes_createDatabase,
               p_postData = PUndefined, p_postContentType = None\<rparr>"
| "free_api base (GetDatabase dbName) =
     Buffered \<lparr>p_url = base @ ''/'' @ encodeURIComponent dbName, p_method = Some ''GET'',
               p_statusCodes = Some codes_getDatabase,
               p_postData = PUndefined, p_postContentType = None\<rparr>"
| "free_api base (GetDatabaseHead dbName) =
     Buffered \<lparr>p_url = base @ ''/'' @ encodeURIComponent dbName, p_method = Some ''HEAD'',
               p_statusCodes = Some codes_getDatabaseHead,
               p_postData = PUndefined, p_postContentType = None\<rparr>"
| "free_api base (DeleteDatabase dbName) =
     Buffered \<lparr>p_url = base @ ''/'' @ encodeURIComponent dbName, p_method = Some ''DELETE'',
               p_statusCodes = Some codes_deleteDatabase,
               p_postData = PUndefined, p_postContentType = None\<rparr>"
| "free_api base (GetAllDocuments dbName queryObj) =
     Buffered \<lparr>p_url = base @ ''/'' @ encodeURIComponent dbName @ ''/_all_docs'' @ createQueryString queryObj,
               p_method = Some ''GET'', p_statusCodes = Some codes_ok,
               p_postData = PUndefined, p_postContentType = None\<rparr>"
| "free_api base (GetDocumentHead dbName docId queryObj) =
     Buffered \<lparr>p_url = base @ ''/'' @ encodeURIComponent dbName @ ''/'' @ encodeURIComponent docId
                       @ createQueryString queryObj,
               p_method = Some ''HEAD'', p_statusCodes = Some codes_getDocumentHead,
               p_postData = PUndefined, p_postContentType = None\<rparr>"
| "free_api base (GetDocument dbName docId queryObj) =
     Buffered \<lparr>p_url = base @ ''/'' @ encodeURIComponent dbName @ ''/'' @ encodeURIComponent docId
                       @ createQueryString queryObj,
               p_method = Some ''GET'', p_statusCodes = Some codes_getDocument,
               p_postData = PUndefined, p_postContentType = None\<rparr>"
| "free_api base (CopyDocument dbName docId newDocId) = Not_exported"
| "free_api base (CreateDocument dbName doc docId) =
     (if truthy_string docId
      then Buffered \<lparr>p_url = base @ ''/'' @ encodeURIComponent dbName @ ''/''
                              @ encodeURIComponent (case docId of None \<Rightarrow> [] | Some d \<Rightarrow> d),
                      p_method = Some ''PUT'', p_statusCodes = Some codes_putDocument,
                      p_postData = doc, p_postContentType = Some ''application/json''\<rparr>
      else Buffered \<lparr>p_url = base @ ''/'' @ encodeURIComponent dbName,
                      p_method = Some ''POST'', p_statusCodes = Some codes_postDocument,
                      p_postData = doc, p_postContentType = None\<rparr>)"
| "free_api base (DeleteDocument dbName docId rv) =
     Buffered \<lparr>p_url = base @ ''/'' @ encodeURIComponent dbName @ ''/'' @ encodeURIComponent docId
                       @ ''?rev='' @ rv,
               p_method = Some ''DELETE'', p_statusCodes = Some codes_deleteDocument,
               p_postData = PUndefined, p_postContentType = None\<rparr>"
| "free_api base (FindDocuments dbName queryObj) = Not_exported"
| "free_api base (GetUuids count) =
     Buffered \<lparr>p_url = base @ ''/_uuids?count='' @ count_or_1 count,
               p_method = Some ''GET'', p_statusCodes = Some codes_getUuids,
               p_postData = PUndefined, p_postContentType = None\<rparr>"
| "free_api base (GetDesignDocument dbName docId queryObj) =
     Buffered \<lparr>p_url = base @ ''/'' @ encodeURIComponent dbName @ ''/_design/'' @ encodeURIComponent docId
                       @ createQueryString queryObj,
               p_method = Some ''GET'', p_statusCodes = Some codes_getDocument,
               p_postData = PUndefined, p_postContentType = None\<rparr>"
| "free_api base (GetDesignDocumentInfo dbName docId) =
     Buffered \<lparr>p_url = base @ ''/'' @ encodeURIComponent dbName @ ''/_design/'' @ encodeURIComponent docId
                       @ ''/_info'',
               p_method = Some ''GET'', p_statusCodes = Some codes_ok,
               p_postData = PUndefined, p_postContentType = None\<rparr>"
| "free_api base (CreateDesignDocument dbName doc docId) =
     Buffered \<lparr>p_url = base @ ''/'' @ encodeURIComponent dbName @ ''/_design/'' @ encodeURIComponent docId,
               p_method = Some ''PUT'', p_statusCodes = Some codes_putDocument,
               p_postData = doc, p_postContentType = None\<rparr>"
| "free_api base (DeleteDesignDocument dbName docId rv) =
     Buffered \<lparr>p_url = base @ ''/'' @ encodeURIComponent dbName @ ''/_design/'' @ encodeURIComponent docId
                       @ ''?rev='' @ rv,
               p_method = Some ''DELETE'', p_statusCodes = Some codes_deleteDocument,
               p_postData = PUndefined, p_postContentType = None\<rparr>"
| "free_api base (GetView dbName docId viewName queryObj) =
     Buffered \<lparr>p_url = base @ ''/'' @ encodeURIComponent dbName @ ''/_design/'' @ encodeURIComponent docId
                       @ ''/_view/'' @ encodeURIComponent viewName @ createQueryString queryObj,
               p_method = Some ''GET'', p_statusCodes = Some codes_ok,
               p_postData = PUndefined, p_postContentType = None\<rparr>"
| "free_api base (CreateBulkDocuments dbName docs opts) =
     Buffered \<lparr>p_url = base @ ''/'' @ encodeURIComponent dbName @ ''/_bulk_docs'',
               p_method = Some ''POST'', p_statusCodes = Some codes_createBulkDocuments,
               p_postData = PObject (bulk_object docs opts), p_postContentType = None\<rparr>"
| "free_api base (GetAttachmentHead dbName docId attName rv) =
     Buffered \<lparr>p_url = base @ ''/'' @ encodeURIComponent dbName @ ''/'' @ encodeURIComponent docId
                       @ ''/'' @ encodeURIComponent attName @ rev_query rv,
               p_method = Some ''HEAD'', p_statusCodes = Some codes_attachment,
               p_postData = PUndefined, p_postContentType = None\<rparr>"
| "free_api base (GetAttachment dbName docId attName stream rv) =
     Streamed \<lparr>s_url = base @ ''/'' @ encodeURIComponent dbName @ ''/'' @ encodeURIComponent docId
                       @ ''/'' @ encodeURIComponent attName @ rev_query rv,
               s_statusCodes = Some codes_attachment, s_stream = stream\<rparr>"
| "free_api base (AddAttachment dbName docId attName rv contentType att) =
     Buffered \<lparr>p_url = base @ ''/'' @ encodeURIComponent dbName @ ''/'' @ encodeURIComponent docId
                       @ ''/'' @ encodeURIComponent attName @ rev_query rv,
               p_method = Some ''PUT'', p_statusCodes = Some codes_addAttachment,
               p_postData = att, p_postContentType = contentType\<rparr>"
| "free_api base (DeleteAttachment dbName docId attName rv) =
     Buffered \<lparr>p_url = base @ ''/'' @ encodeURIComponent dbName @ ''/'' @ encodeURIComponent docId
                       @ ''/'' @ encodeURIComponent attName @ rev_query rv,
               p_method = Some ''DELETE'', p_statusCodes = Some codes_deleteAttachment,
               p_postData = PUndefined, p_postContentType = None\<rparr>"
| "free_api base (CreateIndex dbName queryObj) = Not_exported"
| "free_api base (GetIndex dbName) = Not_exported"
| "free_api base (DeleteIndex dbName docId name) = Not_exported"
| "free_api base (GetUrlPath path) = Not_exported"

text \<open>
  The factory module: the object each method hands to the client's \<^verbatim>\<open>request\<close> or
  \<^verbatim>\<open>requestStream\<close>. \<^verbatim>\<open>copyDocument\<close> calls \<^verbatim>\<open>request\<close> under
  \<^verbatim>\<open>if (docId && newDocId)\<close> and has no other \<^verbatim>\<open>return\<close>; \<^verbatim>\<open>getUrlPath\<close> passes
  the property \<^verbatim>\<open>methode\<close>, so \<^verbatim>\<open>param.method\<close> is \<^verbatim>\<open>undefined\<close> there.
\<close>

datatype fdescriptor = FBuffered fparam | FStreamed fstream_param | No_return

primrec factory_api :: "api_call \<Rightarrow> fdescriptor" where
  "factory_api GetInfo =
     FBuffered \<lparr>f_path = [], f_method = Some ''GET'', f_statusCodes = Some codes_ok,
                f_postData = PUndefined, f_postContentType = None, f_Destination = None\<rparr>"
| "factory_api ListDatabases =
     FBuffered \<lparr>f_path = ''_all_dbs'', f_method = Some ''GET'', f_statusCodes = Some codes_ok,
                f_postData = PUndefined, f_postContentType = None, f_Destination = None\<rparr>"
| "factory_api (CreateDatabase dbName) =
     FBuffered \<lparr>f_path = encodeURIComponent dbName, f_method = Some ''PUT'',
                f_statusCodes = Some codes_createDatabase,
                f_postData = PUndefined, f_postContentType = None, f_Destination = None\<rparr>"
| "factory_api (GetDatabase dbName) =
     FBuffered \<lparr>f_path = encodeURIComponent dbName, f_method = Some ''GET'',
                f_statusCodes = Some codes_getDatabase,
                f_postData = PUndefined, f_postContentType = None, f_Destination = None\<rparr>"
| "factory_api (GetDatabaseHead dbName) =
     FBuffered \<lparr>f_path = encodeURIComponent dbName, f_method = Some ''HEAD'',
                f_statusCodes = Some codes_getDatabaseHead,
                f_postData = PUndefined, f_postContentType = None, f_Destination = None\<rparr>"
| "factory_api (DeleteDatabase dbName) =
     FBuffered \<lparr>f_path = encodeURIComponent dbName, f_method = Some ''DELETE'',
                f_statusCodes = Some codes_deleteDatabase,
                f_postData = PUndefined, f_postContentType = None, f_Destination = None\<rparr>"
| "factory_api (GetAllDocuments dbName queryObj) =
     FBuffered \<lparr>f_path = encodeURIComponent dbName @ ''/_all_docs'' @ createQueryString queryObj,
                f_method = Some ''GET'', f_statusCodes = Some codes_ok,
                f_postData = PUndefined, f_postContentType = None, f_Destination = None\<rparr>"
| "factory_api (GetDocumentHead dbName docId queryObj) =
     FBuffered \<lparr>f_path = encodeURIComponent dbName @ ''/'' @ encodeURIComponent docId
                         @ createQueryString queryObj,
                f_method = Some ''HEAD'', f_statusCodes = Some codes_getDocumentHead,
                f_postData = PUndefined, f_postContentType = None, f_Destination = None\<rparr>"
| "factory_api (GetDocument dbName docId queryObj) =
     FBuffered \<lparr>f_path = encodeURIComponent dbName @ ''/'' @ encodeURIComponent docId
                         @ createQueryString queryObj,
                f_method = Some ''GET'', f_statusCodes = Some codes_getDocument,
                f_postData = PUndefined, f_postContentType = None, f_Destination = None\<rparr>"
| "factory_api (CopyDocument dbName docId newDocId) =
     (if docId \<noteq> [] \<and> newDocId \<noteq> []
      then FBuffered \<lparr>f_path = encodeURIComponent dbName @ ''/'' @ encodeURIComponent docId,
                       f_method = Some ''COPY'', f_statusCodes = Some codes_putDocument,
                       f_postData = PUndefined, f_postContentType = None,
                       f_Destination = Some newDocId\<rparr>
      else No_return)"
| "factory_api (CreateDocument dbName doc docId) =
     (if truthy_string docId
      then FBuffered \<lparr>f_path = encodeURIComponent dbName @ ''/''
                                @ encodeURIComponent (case docId of None \<Rightarrow> [] | Some d \<Rightarrow> d),
                       f_method = Some ''PUT'', f_statusCodes = Some codes_putDocument,
                       f_postData = doc, f_postContentType = Some ''application/json'',
                       f_Destination = None\<rparr>
      else FBuffered \<lparr>f_path = encodeURIComponent dbName,
                       f_method = Some ''POST'', f_statusCodes = Some codes_postDocument,
                       f_postData = doc, f_postContentType = None, f_Destination = None\<rparr>)"
| "factory_api (DeleteDocument dbName docId rv) =
     FBuffered \<lparr>f_path = encodeURIComponent dbName @ ''/'' @ encodeURIComponent docId @ ''?rev='' @ rv,
                f_method = Some ''DELETE'', f_statusCodes = Some codes_deleteDocument,
                f_postData = PUndefined, f_postContentType = None, f_Destination = None\<rparr>"
| "factory_api (FindDocuments dbName queryObj) =
     FBuffered \<lparr>f_path = encodeURIComponent dbName @ ''/_find'',
                f_method = Some ''POST'', f_statusCodes = Some codes_findDocuments,
                f_postData = queryObj, f_postContentType = None, f_Destination = None\<rparr>"
| "factory_api (GetUuids count) =
     FBuffered \<lparr>f_path = ''_uuids?count='' @ count_or_1 count,
                f_method = Some ''GET'', f_statusCodes = Some codes_getUuids,
                f_postData = PUndefined, f_postContentType = None, f_Destination = None\<rparr>"
| "factory_api (GetDesignDocument dbName docId queryObj) =
     FBuffered \<lparr>f_path = encodeURIComponent dbName @ ''/_design/'' @ encodeURIComponent docId
                         @ createQueryString queryObj,
                f_method = Some ''GET'', f_statusCodes = Some codes_getDocument,
                f_postData = PUndefined, f_postContentType = None, f_Destination = None\<rparr>"
| "factory_api (GetDesignDocumentInfo dbName docId) =
     FBuffered \<lparr>f_path = encodeURIComponent dbName @ ''/_design/'' @ encodeURIComponent docId @ ''/_info'',
                f_method = Some ''GET'', f_statusCodes = Some codes_ok,
                f_postData = PUndefined, f_postContentType = None, f_Destination = None\<rparr>"
| "factory_api (CreateDesignDocument dbName doc docId) =
     FBuffered \<lparr>f_path = encodeURIComponent dbName @ ''/_design/'' @ encodeURIComponent docId,
                f_method = Some ''PUT'', f_statusCodes = Some codes_putDocument,
                f_postData = doc, f_postContentType = None, f_Destination = None\<rparr>"
| "factory_api (DeleteDesignDocument dbName docId rv) =
     FBuffered \<lparr>f_path = encodeURIComponent dbName @ ''/_design/'' @ encodeURIComponent docId
                         @ ''?rev='' @ rv,
                f_method = Some ''DELETE'', f_statusCodes = Some codes_deleteDocument,
                f_postData = PUndefined, f_postContentType = None, f_Destination = None\<rparr>"
| "factory_api (GetView dbName docId viewName queryObj) =
     FBuffered \<lparr>f_path = encodeURIComponent dbName @ ''/_design/'' @ encodeURIComponent docId
                         @ ''/_view/'' @ encodeURIComponent viewName @ createQueryString queryObj,
                f_method = Some ''GET'', f_statusCodes = Some codes_ok,
                f_postData = PUndefined, f_postContentType = None, f_Destination = None\<rparr>"
| "factory_api (CreateBulkDocuments dbName docs opts) =
     FBuffered \<lparr>f_path = encodeURIComponent dbName @ ''/_bulk_docs'',
                f_method = Some ''POST'', f_statusCodes = Some codes_createBulkDocuments,
                f_postData = PObject (bulk_object docs opts), f_postContentType = None,
                f_Destination = None\<rparr>"
| "factory_api (GetAttachmentHead dbName docId attName rv) =
     FBuffered \<lparr>f_path = encodeURIComponent dbName @ ''/'' @ encodeURIComponent docId
                         @ ''/'' @ encodeURIComponent attName @ rev_query rv,
                f_method = Some ''HEAD'', f_statusCodes = Some codes_attachment,
                f_postData = PUndefined, f_postContentType = None, f_Destination = None\<rparr>"
| "factory_api (GetAttachment dbName docId attName stream rv) =
     FStreamed \<lparr>fs_path = encodeURIComponent dbName @ ''/'' @ encodeURIComponent docId
                          @ ''/'' @ encodeURIComponent attName @ rev_query rv,
                fs_statusCodes = Some codes_attachment, fs_stream = stream\<rparr>"
| "factory_api (AddAttachment dbName docId attName rv contentType att) =
     FBuffered \<lparr>f_path = encodeURIComponent dbName @ ''/'' @ encodeURIComponent docId
                         @ ''/'' @ encodeURIComponent attName @ rev_query rv,
                f_method = Some ''PUT'', f_statusCodes = Some codes_addAttachment,
                f_postData = att, f_postContentType = contentType, f_Destination = None\<rparr>"
| "factory_api (DeleteAttachment dbName docId attName rv) =
     FBuffered \<lparr>f_path = encodeURIComponent dbName @ ''/'' @ encodeURIComponent docId
                         @ ''/'' @ encodeURIComponent attName @ rev_query rv,
                f_method = Some ''DELETE'', f_statusCodes = Some codes_deleteAttachment,
                f_postData = PUndefined, f_postContentType = None, f_Destination = None\<rparr>"
| "factory_api (CreateIndex dbName queryObj) =
     FBuffered \<lparr>f_path = encodeURIComponent dbName @ ''/_index'',
                f_method = Some ''POST'', f_statusCodes = Some codes_createIndex,
                f_postData = queryObj, f_postContentType = None, f_Destination = None\<rparr>"
| "factory_api (GetIndex dbName) =
     FBuffered \<lparr>f_path = encodeURIComponent dbName @ ''/_index'',
                f_method = Some ''GET'', f_statusCodes = Some codes_getIndex,
                f_postData = PUndefined, f_postContentType = None, f_Destination = None\<rparr>"
| "factory_api (DeleteIndex dbName docId name) =
     FBuffered \<lparr>f_path = encodeURIComponent dbName @ ''/_index/'' @ encodeURIComponent docId
                         @ ''/json/'' @ encodeURIComponent name,
                f_method = Some ''DELETE'', f_statusCodes = Some codes_deleteIndex,
                f_postData = PUndefined, f_postContentType = None, f_Destination = None\<rparr>"
| "factory_api (GetUrlPath pth) =
     FBuffered \<lparr>f_path = pth, f_method = None, f_statusCodes = None,
                f_postData = PUndefined, f_postContentType = None, f_Destination = None\<rparr>"

text \<open>
  What the caller of an API function gets at once. \<^verbatim>\<open>getAttachment\<close> calls
  \<^verbatim>\<open>requestStream\<close> inside \<^verbatim>\<open>Promise.resolve().then(...)\<close>, so an exception thrown
  there rejects the promise it returns.
\<close>

definition in_then :: "call \<Rightarrow> call" where
  "in_then c = (case c of Threw exn \<Rightarrow> Rejected_error exn | _ \<Rightarrow> c)"


definition call_factory :: "node \<Rightarrow> client \<Rightarrow> api_call \<Rightarrow> call \<times> client" where
  "call_factory rt cl c =
     (case factory_api c of
        FBuffered prm \<Rightarrow> request_f rt cl prm
      | FStreamed prm \<Rightarrow> (in_then (fst (requestStream_f rt cl prm)), snd (requestStream_f rt cl prm))
      | No_return \<Rightarrow> (Returned_undefined, cl))"







subsection \<open>Names for the statements\<close>

text \<open>
  The headers both modules start from, the envelope of an invalid payload around its
  \<^verbatim>\<open>data\<close>, and the payloads that pass all four tests of the encoder's chain
  (buffer, readable stream, plain object, string).
\<close>

definition base_headers :: "(string \<times> header_value) list" where
  "base_headers =
     [(''user-agent'', HString ''couchdb-promises''), (''accept'', HString ''application/json'')]"

definition invalid_post_data :: "env_data \<Rightarrow> unit option \<Rightarrow> envelope" where
  "invalid_post_data err dur =
     \<lparr>headers = [], data = Some err, status = 400, message = ''invalid post data'', duration = dur\<rparr>"

definition no_branch :: "post_data \<Rightarrow> bool" where
  "no_branch v \<longleftrightarrow>
     \<not> isBuffer v \<and> \<not> (truthy v \<and> readable v \<and> read_is_function v) \<and>
     toStringTag v \<noteq> ''[object Object]'' \<and> typeof v \<noteq> ''string''"

text \<open>
  The client the factory returns on the sample runtime for the base URL
  \<^verbatim>\<open>http://localhost:5984\<close>.
\<close>

definition sample_client :: client where
  "sample_client =
     \<lparr>client_config =
        \<lparr>cfg_requestTimeout = 10000, cfg_verifyCertificate = True,
         cfg_baseUrl = Some ''http://localhost:5984''\<rparr>,
      httpOptions =
        \<lparr>opt_hostname = Some ''localhost'', opt_port = PortString ''5984'', opt_path = None,
         opt_auth = None, opt_protocol = Some ''http:'', opt_method = None,
         opt_rejectUnauthorized = Some True, opt_headers = base_headers\<rparr>\<rparr>"



text \<open>The status table a descriptor carries.\<close>

definition codes_of :: "descriptor \<Rightarrow> (nat \<times> string) list option" where
  "codes_of d =
     (case d of Buffered prm \<Rightarrow> p_statusCodes prm | Streamed prm \<Rightarrow> s_statusCodes prm
      | Not_exported \<Rightarrow> None)"

definition fcodes_of :: "fdescriptor \<Rightarrow> (nat \<times> string) list option" where
  "fcodes_of d =
     (case d of FBuffered prm \<Rightarrow> f_statusCodes prm | FStreamed prm \<Rightarrow> fs_statusCodes prm
      | No_return \<Rightarrow> None)"


section \<open>Properties\<close>

subsection \<open>The sample runtime on the examples' URLs\<close>

lemma parse_db_url:
  "urlParse sample_node ''http://localhost:5984/db'' =
     \<lparr>url_protocol = Some ''http:'', url_slashes = Some True, url_auth = None,
      url_host = Some ''localhost:5984'', url_port = Some ''5984'', url_hostname = Some ''localhost'',
      url_path = Some ''/db''\<rparr>"
  by (simp add: sample_node_def sample_urlParse_def Let_def after_last_def is_digit_def)

lemma valid_db_url: "isValidUrl sample_node ''http://localhost:5984/db''"
  by (simp add: isValidUrl_def parse_db_url Number_isNaN_def truthy_string_def trim_def is_space_def
      radix_literal_def unsigned_decimal_def is_digit_def)



subsection \<open>The query builder\<close>









subsection \<open>The status resolver\<close>

lemma wf_table_map_of: "wf_table tbl \<Longrightarrow> map_of tbl code = Some m \<Longrightarrow> m \<noteq> []"
  by (induction tbl) (auto simp: wf_table_def split: if_splits)

lemma or_string_wf:
  "wf_table tbl \<Longrightarrow>
   or_string (map_of tbl code) d = (case map_of tbl code of Some m \<Rightarrow> m | None \<Rightarrow> d)"
  by (auto simp: or_string_def split: option.splits dest: wf_table_map_of)

lemma wf_GENERIC: "wf_table GENERIC_STATUS_CODES"
  by (simp add: wf_table_def GENERIC_STATUS_CODES_def)

lemma status_message_spec:
  assumes wf: "wf_codes override"
  shows "status_message override code = spec_resolve GENERIC_STATUS_CODES override code"
proof -
  have g: "or_string (map_of GENERIC_STATUS_CODES code) ''unknown status'' =
      (case map_of GENERIC_STATUS_CODES code of Some m \<Rightarrow> m | None \<Rightarrow> ''unknown status'')"
    by (rule or_string_wf [OF wf_GENERIC])
  show ?thesis
  proof (cases override)
    case None
    then show ?thesis
      by (simp add: status_message_def spec_resolve_def g) (simp add: or_string_def)
  next
    case (Some tbl)
    with wf have "wf_table tbl" by (simp add: wf_codes_def)
    then show ?thesis
      using Some by (simp add: status_message_def spec_resolve_def g or_string_wf)
  qed
qed

lemma statusCode_spec:
  assumes "wf_codes override" "wf_table (STATUS_CODES rt)"
  shows "statusCode rt override code = spec_resolve (STATUS_CODES rt) override code"
proof (cases override)
  case None
  with assms show ?thesis
    by (simp add: statusCode_def spec_resolve_def or_string_wf)
next
  case (Some tbl)
  with assms have wf: "wf_table tbl" by (simp add: wf_codes_def)
  show ?thesis
  proof (cases "map_of tbl code")
    case None
    with Some assms(2) show ?thesis
      by (simp add: statusCode_def spec_resolve_def map_add_def or_string_wf)
  next
    case (Some m)
    with \<open>override = Some tbl\<close> wf show ?thesis
      by (auto simp: statusCode_def spec_resolve_def map_add_def or_string_def dest: wf_table_map_of)
  qed
qed

lemma wf_api_tables:
  "wf_table codes_ok" "wf_table codes_createDatabase" "wf_table codes_getDatabase"
  "wf_table codes_getDatabaseHead" "wf_table codes_deleteDatabase" "wf_table codes_getDocumentHead"
  "wf_table codes_getDocument" "wf_table codes_putDocument" "wf_table codes_postDocument"
  "wf_table codes_deleteDocument" "wf_table codes_findDocuments" "wf_table codes_getUuids"
  "wf_table codes_createBulkDocuments" "wf_table codes_attachment" "wf_table codes_addAttachment"
  "wf_table codes_deleteAttachment" "wf_table codes_createIndex" "wf_table codes_getIndex"
  "wf_table codes_deleteIndex"
  by (simp_all add: wf_table_def codes_ok_def codes_createDatabase_def codes_getDatabase_def
      codes_getDatabaseHead_def codes_deleteDatabase_def codes_getDocumentHead_def
      codes_getDocument_def codes_putDocument_def codes_postDocument_def codes_deleteDocument_def
      codes_findDocuments_def codes_getUuids_def codes_createBulkDocuments_def codes_attachment_def
      codes_addAttachment_def codes_deleteAttachment_def codes_createIndex_def codes_getIndex_def
      codes_deleteIndex_def)

lemma wf_free_api: "wf_codes (codes_of (free_api base c))"
  by (cases c) (simp_all add: codes_of_def wf_codes_def wf_api_tables)

lemma wf_factory_api: "wf_codes (fcodes_of (factory_api c))"
  by (cases c) (simp_all add: fcodes_of_def wf_codes_def wf_api_tables)

text \<open>
  Claim C8. The status resolver is a lookup: for every status code and every optional
  override table whose messages are non-empty strings, the free-function module returns
  the override's entry when the code is listed there, else the entry of
  \<open>GENERIC_STATUS_CODES\<close>, else \<^verbatim>\<open>unknown status\<close>; the factory module does the same
  with \<^verbatim>\<open>http.STATUS_CODES\<close> as the generic table. The table of every API function
  has non-empty messages, so this is what the resolver returns on every call of the API.
  Both resolvers are functions of the table and the code alone, so two calls with the same
  arguments give the same string.
\<close>

theorem status_resolver_lookup:
  "(wf_codes override \<longrightarrow>
      status_message override code = spec_resolve GENERIC_STATUS_CODES override code) \<and>
   (wf_codes override \<and> wf_table (STATUS_CODES rt) \<longrightarrow>
      statusCode rt override code = spec_resolve (STATUS_CODES rt) override code) \<and>
   status_message (codes_of (free_api base c)) code =
     spec_resolve GENERIC_STATUS_CODES (codes_of (free_api base c)) code \<and>
   (wf_table (STATUS_CODES rt) \<longrightarrow>
      statusCode rt (fcodes_of (factory_api c)) code =
        spec_resolve (STATUS_CODES rt) (fcodes_of (factory_api c)) code)"
  by (simp add: status_message_spec statusCode_spec wf_free_api wf_factory_api)

theorem status_resolver_lookup_witness:
  "status_message (Some codes_createDatabase) 412 = ''Precondition Failed - Database already exists'' \<and>
   status_message (Some codes_createDatabase) 404 = ''Not Found'' \<and>
   status_message (Some codes_createDatabase) 299 = ''unknown status'' \<and>
   status_message None 200 = ''OK'' \<and>
   statusCode sample_node (Some codes_createDatabase) 412 = ''Precondition Failed - Database already exists'' \<and>
   statusCode sample_node (Some codes_createDatabase) 404 = ''Not Found'' \<and>
   statusCode sample_node (Some codes_createDatabase) 299 = ''unknown status''"
proof -
  have a: "wf_codes (Some codes_createDatabase)" "wf_codes None"
    by (simp_all add: wf_codes_def wf_table_def codes_createDatabase_def)
  have b: "wf_table (STATUS_CODES sample_node)"
    by (simp add: wf_table_def sample_node_def)
  have c: "spec_resolve GENERIC_STATUS_CODES (Some codes_createDatabase) 412 = ''Precondition Failed - Database already exists''"
    "spec_resolve GENERIC_STATUS_CODES (Some codes_createDatabase) 404 = ''Not Found''"
    "spec_resolve GENERIC_STATUS_CODES (Some codes_createDatabase) 299 = ''unknown status''"
    "spec_resolve GENERIC_STATUS_CODES None 200 = ''OK''"
    "spec_resolve (STATUS_CODES sample_node) (Some codes_createDatabase) 412 = ''Precondition Failed - Database already exists''"
    "spec_resolve (STATUS_CODES sample_node) (Some codes_createDatabase) 404 = ''Not Found''"
    "spec_resolve (STATUS_CODES sample_node) (Some codes_createDatabase) 299 = ''unknown status''"
    by (simp_all add: spec_resolve_def codes_createDatabase_def GENERIC_STATUS_CODES_def sample_node_def)
  show ?thesis
    using status_resolver_lookup [where override = "Some codes_createDatabase" and code = 412 and rt = sample_node]
      status_resolver_lookup [where override = "Some codes_createDatabase" and code = 404 and rt = sample_node]
      status_resolver_lookup [where override = "Some codes_createDatabase" and code = 299 and rt = sample_node]
      status_resolver_lookup [where override = None and code = 200 and rt = sample_node] a b
    by (simp add: c)
qed

subsection \<open>Malformed targets\<close>



text \<open>
  Claim C9. The factory throws at construction, and so returns no client, when
  \<^verbatim>\<open>baseUrl\<close> is missing, and when its parse has a protocol other than \<^verbatim>\<open>http:\<close> and
  \<^verbatim>\<open>https:\<close>, no host name, or a port \<^verbatim>\<open>parseInt\<close> reads no number from (a URL
  without a port among them).
\<close>

theorem factory_bad_baseUrl:
  "(baseUrl op = None \<longrightarrow> factory rt op = Inl missing_baseUrl) \<and>
   (baseUrl op = Some b \<and>
      (url_protocol (urlParse rt b) \<notin> {Some ''http:'', Some ''https:''} \<or>
       \<not> truthy_string (url_hostname (urlParse rt b)) \<or>
       parseInt_isNaN (url_port (urlParse rt b))) \<longrightarrow>
      factory rt op = Inl ''invalid baseUrl'')"
  by (auto simp: factory_def Let_def)

theorem factory_bad_baseUrl_witness:
  "factory sample_node \<lparr>baseUrl = None, requestTimeout = None, verifyCertificate = None\<rparr> =
     Inl missing_baseUrl \<and>
   factory sample_node \<lparr>baseUrl = Some ''not-a-url'', requestTimeout = None, verifyCertificate = None\<rparr> =
     Inl ''invalid baseUrl'' \<and>
   factory sample_node \<lparr>baseUrl = Some ''http://localhost'', requestTimeout = None, verifyCertificate = None\<rparr> =
     Inl ''invalid baseUrl'' \<and>
   factory sample_node \<lparr>baseUrl = Some ''ftp://localhost:5984'', requestTimeout = None, verifyCertificate = None\<rparr> =
     Inl ''invalid baseUrl''"
proof -
  have a: "\<not> truthy_string (url_hostname (urlParse sample_node ''not-a-url''))"
    by (simp add: sample_node_def sample_urlParse_def Let_def truthy_string_def)
  have b: "parseInt_isNaN (url_port (urlParse sample_node ''http://localhost''))"
    by (simp add: sample_node_def sample_urlParse_def Let_def parseInt_isNaN_def after_last_def)
  have c: "url_protocol (urlParse sample_node ''ftp://localhost:5984'') \<notin> {Some ''http:'', Some ''https:''}"
    by (simp add: sample_node_def sample_urlParse_def Let_def)
  show ?thesis
    using factory_bad_baseUrl [of "\<lparr>baseUrl = None, requestTimeout = None, verifyCertificate = None\<rparr>" sample_node]
      factory_bad_baseUrl [of "\<lparr>baseUrl = Some ''not-a-url'', requestTimeout = None, verifyCertificate = None\<rparr>"
        sample_node "''not-a-url''"] a
      factory_bad_baseUrl [of "\<lparr>baseUrl = Some ''http://localhost'', requestTimeout = None, verifyCertificate = None\<rparr>"
        sample_node "''http://localhost''"] b
      factory_bad_baseUrl [of "\<lparr>baseUrl = Some ''ftp://localhost:5984'', requestTimeout = None, verifyCertificate = None\<rparr>"
        sample_node "''ftp://localhost:5984''"] c
    by simp
qed

subsection \<open>The default port of the free-function module\<close>

lemma request_issued_port:
  "request rt prm = Issued w \<Longrightarrow>
   opt_port (options w) = port_or_443 (url_port (urlParse rt (p_url prm))) \<and>
   lib w = lib_of (url_protocol (urlParse rt (p_url prm)))"
  by (auto simp: request_def Let_def split: if_splits option.splits)

lemma requestStream_issued_port:
  "requestStream rt sp = Issued w \<Longrightarrow>
   opt_port (options w) = port_or_443 (url_port (urlParse rt (s_url sp))) \<and>
   lib w = lib_of (url_protocol (urlParse rt (s_url sp)))"
  by (auto simp: requestStream_def Let_def split: if_splits option.splits)

lemma request_no_payload:
  "isValidUrl rt (p_url prm) \<Longrightarrow> p_postData prm = PUndefined \<Longrightarrow> \<exists>w. request rt prm = Issued w"
  by (simp add: request_def Let_def encode_post_data_def isBuffer_def truthy_def toStringTag_def
      typeof_def)

text \<open>
  Claim C10. In the free-function module, when the parse of the target URL has no port,
  every request that \<^verbatim>\<open>request\<close> or \<^verbatim>\<open>requestStream\<close> issues goes to port 443,
  through the \<^verbatim>\<open>https\<close> library when the protocol is \<^verbatim>\<open>https:\<close> and through
  \<^verbatim>\<open>http\<close> otherwise; and a call without payload to a valid URL does issue a request.
\<close>

theorem default_port_443:
  assumes "url_port (urlParse rt u) = None"
  shows "(p_url prm = u \<and> request rt prm = Issued w \<longrightarrow>
            opt_port (options w) = PortNumber 443 \<and>
            lib w = (if url_protocol (urlParse rt u) = Some ''https:'' then Https else Http)) \<and>
         (s_url sp = u \<and> requestStream rt sp = Issued w' \<longrightarrow>
            opt_port (options w') = PortNumber 443 \<and>
            lib w' = (if url_protocol (urlParse rt u) = Some ''https:'' then Https else Http)) \<and>
         (p_url prm = u \<and> isValidUrl rt u \<and> p_postData prm = PUndefined \<longrightarrow>
            (\<exists>v. request rt prm = Issued v))"
  using assms request_issued_port [of rt prm w] requestStream_issued_port [of rt sp w']
    request_no_payload [of rt prm]
  by (auto simp: port_or_443_def lib_of_def)

theorem default_port_443_witness:
  "request sample_node
     \<lparr>p_url = ''http://localhost/_all_dbs'', p_method = Some ''GET'', p_statusCodes = Some codes_ok,
      p_postData = PUndefined, p_postContentType = None\<rparr> =
   Issued
     \<lparr>lib = Http,
      options =
        \<lparr>opt_hostname = Some ''localhost'', opt_port = PortNumber 443, opt_path = Some ''/_all_dbs'',
         opt_auth = None, opt_protocol = Some ''http:'', opt_method = Some ''GET'',
         opt_rejectUnauthorized = None,
         opt_headers =
           [(''user-agent'', HString ''couchdb-promises''), (''accept'', HString ''application/json'')]\<rparr>,
      written = []\<rparr> \<and>
   opt_port (options (case request sample_node
     \<lparr>p_url = ''http://localhost/_all_dbs'', p_method = Some ''GET'', p_statusCodes = Some codes_ok,
      p_postData = PUndefined, p_postContentType = None\<rparr> of Issued w \<Rightarrow> w)) = PortNumber 443"
proof -
  let ?p = "\<lparr>p_url = ''http://localhost/_all_dbs'', p_method = Some ''GET'', p_statusCodes = Some codes_ok,
      p_postData = PUndefined, p_postContentType = None\<rparr>"
  let ?s = "\<lparr>s_url = ''http://localhost/_all_dbs'', s_statusCodes = None,
      s_stream = Some \<lparr>writable = True, pipe_is_function = True\<rparr>\<rparr>"
  let ?w = "\<lparr>lib = Http,
      options =
        \<lparr>opt_hostname = Some ''localhost'', opt_port = PortNumber 443, opt_path = Some ''/_all_dbs'',
         opt_auth = None, opt_protocol = Some ''http:'', opt_method = Some ''GET'',
         opt_rejectUnauthorized = None,
         opt_headers =
           [(''user-agent'', HString ''couchdb-promises''), (''accept'', HString ''application/json'')]\<rparr>,
      written = []\<rparr>"
  have parsed: "urlParse sample_node ''http://localhost/_all_dbs'' =
      \<lparr>url_protocol = Some ''http:'', url_slashes = Some True, url_auth = None,
       url_host = Some ''localhost'', url_port = None, url_hostname = Some ''localhost'',
       url_path = Some ''/_all_dbs''\<rparr>"
    by (simp add: sample_node_def sample_urlParse_def Let_def after_last_def)
  have valid: "isValidUrl sample_node ''http://localhost/_all_dbs''"
    by (simp add: isValidUrl_def parsed Number_isNaN_def truthy_string_def)
  have req: "request sample_node ?p = Issued ?w"
    by (simp add: request_def valid parsed Let_def encode_post_data_def isBuffer_def truthy_def
        toStringTag_def typeof_def host_name_def port_or_443_def lib_of_def write_out_def
        chunk_truthy_def)
  have "url_port (urlParse sample_node ''http://localhost/_all_dbs'') = None"
    by (simp add: parsed)
  from default_port_443 [OF this, of ?p ?w ?s ?w] req
  have "opt_port (options ?w) = PortNumber 443"
    by simp
  with req show ?thesis
    by simp
qed

subsection \<open>Exchanges that complete\<close>

lemma foldl_Data:
  "res x = Some r \<Longrightarrow>
   foldl (request_event rt sc) x (map Data ds) = x\<lparr>buffer := buffer x @ concat ds\<rparr>"
  by (induction ds arbitrary: x) (simp_all add: request_event_def)

lemma foldl_Data_f:
  "res x = Some r \<Longrightarrow>
   foldl (request_f_event rt sc) x (map Data ds) = x\<lparr>buffer := buffer x @ concat ds\<rparr>"
  by (induction ds arbitrary: x) (simp_all add: request_f_event_def)

lemma run_request_completes:
  "run_request rt sc (completes hs code ds) = Resolved (end_envelope rt sc hs code (concat ds))"
  by (simp add: run_request_def completes_def foldl_Data [where r = "(hs, code)"]
      request_event_def started_def resolve_def)

lemma run_request_f_completes:
  "run_request_f rt sc (completes hs code ds) =
     settle_by_status (end_envelope_f rt sc hs code (concat ds)) Pending"
  by (simp add: run_request_f_def completes_def foldl_Data_f [where r = "(hs, code)"]
      request_f_event_def started_def)

text \<open>
  Claim C7. For every exchange that completes, in both modules: when the body is empty
  the text \<^verbatim>\<open>{}\<close> is parsed in its place, so with a \<^verbatim>\<open>JSON.parse\<close> that reads
  \<^verbatim>\<open>{}\<close> as the empty object the envelope's data is the empty object and its status
  the response's; when \<^verbatim>\<open>JSON.parse\<close> fails on the body, the promise settles with an
  envelope of status 500 whose data holds the parse error and whose message is the
  error's message, and nothing is thrown.
\<close>

theorem empty_body_and_parse_failure:
  "(JSON_parse rt ''{}'' = Inr (JObj []) \<and> concat ds = [] \<longrightarrow>
      outcome (run_request rt sc (completes hs code ds)) =
        Some \<lparr>headers = hs, data = Some (Parsed (JObj [])), status = code,
              message = status_message sc code, duration = None\<rparr> \<and>
      outcome (run_request_f rt sc (completes hs code ds)) =
        Some \<lparr>headers = hs, data = Some (Parsed (JObj [])), status = code,
              message = statusCode rt sc code, duration = Some ()\<rparr>) \<and>
   (concat ds \<noteq> [] \<and> JSON_parse rt (concat ds) = Inl err \<longrightarrow>
      outcome (run_request rt sc (completes hs code ds)) =
        Some \<lparr>headers = hs, data = Some (ErrorObject err), status = 500,
              message = (if err \<noteq> [] then err else ''internal error''), duration = None\<rparr> \<and>
      outcome (run_request_f rt sc (completes hs code ds)) =
        Some \<lparr>headers = hs, data = Some (ErrorProp (Text err)), status = 500,
              message = (if err \<noteq> [] then err else ''internal error''), duration = Some ()\<rparr>)"
  by (simp add: run_request_completes run_request_f_completes end_envelope_def end_envelope_f_def
      settle_by_status_def outcome_def resolve_def reject_def or_string_def)

theorem empty_body_and_parse_failure_witness:
  "outcome (run_request sample_node None (completes [] 204 [])) =
     Some \<lparr>headers = [], data = Some (Parsed (JObj [])), status = 204,
           message = ''unknown status'', duration = None\<rparr> \<and>
   outcome (run_request_f sample_node None (completes [] 200 [''oo'', ''ps''])) =
     Some \<lparr>headers = [], data = Some (ErrorProp (Text ''Unexpected token in JSON'')), status = 500,
           message = ''Unexpected token in JSON'', duration = Some ()\<rparr>"
proof -
  have a: "JSON_parse sample_node ''{}'' = Inr (JObj [])"
    and b: "JSON_parse sample_node (concat [''oo'', ''ps'']) = Inl ''Unexpected token in JSON''"
    by (simp_all add: sample_node_def sample_JSON_parse_def not_found_body_def)
  have m: "status_message None 204 = ''unknown status''"
    by (simp add: status_message_def GENERIC_STATUS_CODES_def or_string_def)
  show ?thesis
    using empty_body_and_parse_failure [where rt = sample_node and ds = "[]" and sc = None
        and hs = "[]" and code = 204]
      empty_body_and_parse_failure [where rt = sample_node and ds = "[''oo'', ''ps'']"
        and err = "''Unexpected token in JSON''" and sc = None and hs = "[]" and code = 200]
      a b m
    by simp
qed

text \<open>
  Claim C5, on the code. A response with status 404 and the well-formed body
  \<^verbatim>\<open>{"error":"not_found"}\<close>: the factory's \<^verbatim>\<open>request\<close> rejects with the envelope, and
  so does the free-function \<^verbatim>\<open>requestStream\<close> on a 404, but the free-function
  \<^verbatim>\<open>request\<close> resolves with it.
\<close>

theorem free_request_resolves_error_status:
  "run_request sample_node (Some codes_getDocument) (completes [] 404 [not_found_body]) =
     Resolved \<lparr>headers = [], data = Some (Parsed (JObj [(''error'', JStr ''not_found'')])),
               status = 404, message = ''Not Found - Document not found'', duration = None\<rparr> \<and>
   run_request_f sample_node (Some codes_getDocument) (completes [] 404 [not_found_body]) =
     Rejected \<lparr>headers = [], data = Some (Parsed (JObj [(''error'', JStr ''not_found'')])),
               status = 404, message = ''Not Found - Document not found'', duration = Some ()\<rparr> \<and>
   run_requestStream (Some codes_attachment) [Response [] 404] =
     Rejected \<lparr>headers = [], data = None, status = 404,
               message = ''Not Found - Specified database, document or attchment was not found'',
               duration = None\<rparr>"
  by (simp add: run_request_completes run_request_f_completes end_envelope_def end_envelope_f_def
      settle_by_status_def resolve_def reject_def or_string_def sample_node_def sample_JSON_parse_def
      not_found_body_def status_message_def statusCode_def codes_getDocument_def codes_attachment_def
      run_requestStream_def requestStream_event_def stream_envelope_def map_add_def)

subsection \<open>The payload encoder\<close>

lemma encode_kinds:
  "encode_post_data rt (PBuffer bs) ct hs =
     \<lparr>enc_headers = AList.update ''content-length'' (HNumber (length bs))
                      (AList.update ''content-type'' (content_type ct) hs),
      enc_body = Some (Bytes bs), enc_stream = None, enc_error = None, enc_threw = None\<rparr>"
  "encode_post_data rt (PStream cs) ct hs =
     \<lparr>enc_headers = AList.update ''Transfer-Encoding'' (HString ''chunked'')
                      (AList.update ''content-type'' (content_type ct) hs),
      enc_body = None, enc_stream = Some cs, enc_error = None, enc_threw = None\<rparr>"
  "encode_post_data rt (PObject kvs) ct hs =
     \<lparr>enc_headers = AList.update ''content-length'' (HNumber (byteLength (JSON_stringify (JObj kvs))))
                      (AList.update ''content-type'' (HString ''application/json'') hs),
      enc_body = Some (Chars (JSON_stringify (JObj kvs))), enc_stream = None, enc_error = None,
      enc_threw = None\<rparr>"
  "encode_post_data rt (PStr s) ct hs =
     \<lparr>enc_headers = AList.update ''content-length'' (HNumber (length s))
                      (AList.update ''content-type'' (content_type ct) hs),
      enc_body = Some (Chars s), enc_stream = None, enc_error = None, enc_threw = None\<rparr>"
  by (simp_all add: encode_post_data_def isBuffer_def truthy_def readable_def read_is_function_def
      toStringTag_def typeof_def buffer_bytes_def stream_chunks_def string_chars_def
      stringify_object_def)

lemma encode_f_kinds:
  "encode_post_data_f rt (PBuffer bs) ct hs = encode_post_data rt (PBuffer bs) ct hs"
  "encode_post_data_f rt (PStream cs) ct hs = encode_post_data rt (PStream cs) ct hs"
  "encode_post_data_f rt (PObject kvs) ct hs = encode_post_data rt (PObject kvs) ct hs"
  "encode_post_data_f rt (PStr s) ct hs = encode_post_data rt (PStr s) ct hs"
  by (simp_all add: encode_post_data_def encode_post_data_f_def isBuffer_def truthy_def readable_def
      read_is_function_def toStringTag_def typeof_def)

lemma encode_other:
  assumes "no_branch v"
  shows "encode_post_data rt v ct hs =
           \<lparr>enc_headers = hs, enc_body = None, enc_stream = None,
            enc_error = (if truthy v then Some (Text ''unsoported post data'') else None),
            enc_threw = None\<rparr>"
    and "encode_post_data_f rt v ct hs =
           \<lparr>enc_headers = hs, enc_body = None, enc_stream = None,
            enc_error = (if truthy v \<or> v = PNull then Some (Text ''unsupported post data'') else None),
            enc_threw = None\<rparr>"
  using assms by (simp_all add: encode_post_data_def encode_post_data_f_def no_branch_def)

lemma encode_cyclic:
  "encode_post_data rt (PCyclic e) ct hs =
     (case byteLength_undefined rt of
        None \<Rightarrow>
          \<lparr>enc_headers = AList.update ''content-type'' (HString ''application/json'') hs,
           enc_body = None, enc_stream = None, enc_error = Some (ErrorObject e),
           enc_threw = Some ''TypeError''\<rparr>
      | Some n \<Rightarrow>
          \<lparr>enc_headers = AList.update ''content-length'' (HNumber n)
                           (AList.update ''content-type'' (HString ''application/json'') hs),
           enc_body = None, enc_stream = None, enc_error = Some (ErrorObject e),
           enc_threw = None\<rparr>)"
  "encode_post_data_f rt (PCyclic e) ct hs = encode_post_data rt (PCyclic e) ct hs"
  by (simp_all add: encode_post_data_def encode_post_data_f_def isBuffer_def truthy_def
      readable_def read_is_function_def toStringTag_def stringify_object_def)

lemma no_branch_cases:
  "no_branch v =
     (case v of PUndefined \<Rightarrow> True | PNull \<Rightarrow> True | PBool b \<Rightarrow> True | PNum n \<Rightarrow> True
      | PArray xs \<Rightarrow> True | _ \<Rightarrow> False)"
  by (cases v)
    (simp_all add: no_branch_def isBuffer_def truthy_def readable_def read_is_function_def
      toStringTag_def typeof_def)

lemma request_other:
  assumes "isValidUrl rt (p_url prm)" "no_branch (p_postData prm)"
  shows "truthy (p_postData prm) \<Longrightarrow>
         request rt prm = Rejected_now (invalid_post_data (Text ''unsoported post data'') None)"
    and "\<not> truthy (p_postData prm) \<Longrightarrow>
         \<exists>w. request rt prm = Issued w \<and> written w = [] \<and> opt_headers (options w) = base_headers"
  using assms(1)
  by (simp_all add: request_def Let_def encode_other(1) [OF assms(2)] invalid_post_data_def
      write_out_def chunk_truthy_def base_headers_def)

lemma request_cyclic:
  assumes "isValidUrl rt (p_url prm)" "p_postData prm = PCyclic e" "byteLength_undefined rt = Some n"
  shows "request rt prm = Rejected_now (invalid_post_data (ErrorObject e) None)"
  using assms
  by (simp add: request_def Let_def encode_cyclic invalid_post_data_def)

lemma request_f_other:
  assumes "no_branch (f_postData prm)"
  shows "truthy (f_postData prm) \<or> f_postData prm = PNull \<Longrightarrow>
         fst (request_f rt cl prm) =
           Rejected_now (invalid_post_data (ErrorProp (Text ''unsupported post data'')) (Some ()))"
    and "\<not> (truthy (f_postData prm) \<or> f_postData prm = PNull) \<Longrightarrow>
         \<exists>w. fst (request_f rt cl prm) = Issued w \<and> written w = []"
  by (simp_all add: request_f_def Let_def encode_other(2) [OF assms] invalid_post_data_def
      write_out_def chunk_truthy_def)

lemma request_f_cyclic:
  assumes "f_postData prm = PCyclic e" "byteLength_undefined rt = Some n"
  shows "fst (request_f rt cl prm) =
           Rejected_now (invalid_post_data (ErrorProp (ErrorObject e)) (Some ()))"
  using assms
  by (simp add: request_f_def Let_def encode_cyclic invalid_post_data_def)

text \<open>
  Claim C2, as amended. The encoder of both modules tests the payload in the order
  buffer, readable stream, plain object, string. A buffer is the body as it is, with the
  caller's content type and its byte length as content length; a stream is written chunk
  by chunk under \<^verbatim>\<open>Transfer-Encoding: chunked\<close>, with the caller's content type; a plain
  object is serialised as JSON, with content type \<^verbatim>\<open>application/json\<close> and the byte
  length of the text as content length; a string is the body as it is, with its number of
  characters as content length. A payload that passes all four tests is \<^verbatim>\<open>undefined\<close>,
  \<^verbatim>\<open>null\<close>, a boolean, a number or an array: when it is truthy (and, in the factory
  module, also when it is \<^verbatim>\<open>null\<close>) the call is rejected with a status-400
  invalid-payload envelope and no request is issued; when it is falsy (\<^verbatim>\<open>undefined\<close>,
  \<^verbatim>\<open>false\<close>, \<^verbatim>\<open>0\<close>, and \<^verbatim>\<open>null\<close> in the free-function module) a request without
  body is issued. A failing serialisation is rejected with a status-400 envelope on a
  runtime whose \<^verbatim>\<open>Buffer.byteLength\<close> accepts \<^verbatim>\<open>undefined\<close>.
\<close>

theorem payload_dispatch:
  "encode_post_data rt (PBuffer bs) ct hs =
     \<lparr>enc_headers = AList.update ''content-length'' (HNumber (length bs))
                      (AList.update ''content-type'' (content_type ct) hs),
      enc_body = Some (Bytes bs), enc_stream = None, enc_error = None, enc_threw = None\<rparr> \<and>
   encode_post_data rt (PStream cs) ct hs =
     \<lparr>enc_headers = AList.update ''Transfer-Encoding'' (HString ''chunked'')
                      (AList.update ''content-type'' (content_type ct) hs),
      enc_body = None, enc_stream = Some cs, enc_error = None, enc_threw = None\<rparr> \<and>
   encode_post_data rt (PObject kvs) ct hs =
     \<lparr>enc_headers = AList.update ''content-length'' (HNumber (byteLength (JSON_stringify (JObj kvs))))
                      (AList.update ''content-type'' (HString ''application/json'') hs),
      enc_body = Some (Chars (JSON_stringify (JObj kvs))), enc_stream = None, enc_error = None,
      enc_threw = None\<rparr> \<and>
   encode_post_data rt (PStr s) ct hs =
     \<lparr>enc_headers = AList.update ''content-length'' (HNumber (length s))
                      (AList.update ''content-type'' (content_type ct) hs),
      enc_body = Some (Chars s), enc_stream = None, enc_error = None, enc_threw = None\<rparr> \<and>
   encode_post_data_f rt (PBuffer bs) ct hs = encode_post_data rt (PBuffer bs) ct hs \<and>
   encode_post_data_f rt (PStream cs) ct hs = encode_post_data rt (PStream cs) ct hs \<and>
   encode_post_data_f rt (PObject kvs) ct hs = encode_post_data rt (PObject kvs) ct hs \<and>
   encode_post_data_f rt (PStr s) ct hs = encode_post_data rt (PStr s) ct hs \<and>
   no_branch v =
     (case v of PUndefined \<Rightarrow> True | PNull \<Rightarrow> True | PBool b \<Rightarrow> True | PNum n \<Rightarrow> True
      | PArray xs \<Rightarrow> True | _ \<Rightarrow> False) \<and>
   (isValidUrl rt (p_url prm) \<and> no_branch (p_postData prm) \<and> truthy (p_postData prm) \<longrightarrow>
      request rt prm = Rejected_now (invalid_post_data (Text ''unsoported post data'') None)) \<and>
   (isValidUrl rt (p_url prm) \<and> no_branch (p_postData prm) \<and> \<not> truthy (p_postData prm) \<longrightarrow>
      (\<exists>w. request rt prm = Issued w \<and> written w = [] \<and> opt_headers (options w) = base_headers)) \<and>
   (isValidUrl rt (p_url prm) \<and> p_postData prm = PCyclic e \<and> byteLength_undefined rt = Some k \<longrightarrow>
      request rt prm = Rejected_now (invalid_post_data (ErrorObject e) None)) \<and>
   (no_branch (f_postData fp) \<and> (truthy (f_postData fp) \<or> f_postData fp = PNull) \<longrightarrow>
      fst (request_f rt cl fp) =
        Rejected_now (invalid_post_data (ErrorProp (Text ''unsupported post data'')) (Some ()))) \<and>
   (no_branch (f_postData fp) \<and> \<not> truthy (f_postData fp) \<and> f_postData fp \<noteq> PNull \<longrightarrow>
      (\<exists>w. fst (request_f rt cl fp) = Issued w \<and> written w = [])) \<and>
   (f_postData fp = PCyclic e \<and> byteLength_undefined rt = Some k \<longrightarrow>
      fst (request_f rt cl fp) =
        Rejected_now (invalid_post_data (ErrorProp (ErrorObject e)) (Some ())))"
  using request_other [of rt prm] request_cyclic [of rt prm e k] request_f_other [of fp rt cl]
    request_f_cyclic [of fp e rt k] no_branch_cases [of v]
  by (simp add: encode_kinds encode_f_kinds)


theorem payload_dispatch_witness:
  "request sample_node
     \<lparr>p_url = ''http://localhost:5984/db'', p_method = Some ''POST'', p_statusCodes = None,
      p_postData = PNum 5, p_postContentType = None\<rparr> =
     Rejected_now (invalid_post_data (Text ''unsoported post data'') None) \<and>
   request sample_node
     \<lparr>p_url = ''http://localhost:5984/db'', p_method = Some ''POST'', p_statusCodes = None,
      p_postData = PCyclic ''Converting circular structure to JSON'', p_postContentType = None\<rparr> =
     Rejected_now (invalid_post_data (ErrorObject ''Converting circular structure to JSON'') None) \<and>
   fst (request_f sample_node sample_client
     \<lparr>f_path = ''db'', f_method = Some ''POST'', f_statusCodes = None,
      f_postData = PNull, f_postContentType = None, f_Destination = None\<rparr>) =
     Rejected_now (invalid_post_data (ErrorProp (Text ''unsupported post data'')) (Some ()))"
proof -
  let ?p = "\<lparr>p_url = ''http://localhost:5984/db'', p_method = Some ''POST'', p_statusCodes = None,
      p_postData = PNum 5, p_postContentType = None\<rparr>"
  let ?q = "\<lparr>p_url = ''http://localhost:5984/db'', p_method = Some ''POST'', p_statusCodes = None,
      p_postData = PCyclic ''Converting circular structure to JSON'', p_postContentType = None\<rparr>"
  let ?f = "\<lparr>f_path = ''db'', f_method = Some ''POST'', f_statusCodes = None,
      f_postData = PNull, f_postContentType = None, f_Destination = None\<rparr>"
  have nb: "no_branch (PNum 5)" "no_branch PNull" "truthy (PNum 5)"
    by (simp_all add: no_branch_def isBuffer_def truthy_def readable_def read_is_function_def
        toStringTag_def typeof_def)
  have bl: "byteLength_undefined sample_node = Some 9"
    by (simp add: sample_node_def)
  show ?thesis
    using payload_dispatch [where rt = sample_node and prm = ?p and fp = ?f and cl = sample_client]
      payload_dispatch [where rt = sample_node and prm = ?q and k = 9
        and e = "''Converting circular structure to JSON''"]
      valid_db_url nb bl
    by simp
qed

text \<open>
  The claim as stated fails on the boolean \<^verbatim>\<open>false\<close>: the free-function
  \<^verbatim>\<open>createDocument(baseUrl, 'db', false)\<close> issues a \<^verbatim>\<open>POST\<close> without body.
\<close>

theorem falsy_payload_not_rejected:
  "request sample_node
     \<lparr>p_url = ''http://localhost:5984/db'', p_method = Some ''POST'',
      p_statusCodes = Some codes_postDocument, p_postData = PBool False, p_postContentType = None\<rparr> =
   Issued
     \<lparr>lib = Http,
      options =
        \<lparr>opt_hostname = Some ''localhost'', opt_port = PortString ''5984'', opt_path = Some ''/db'',
         opt_auth = None, opt_protocol = Some ''http:'', opt_method = Some ''POST'',
         opt_rejectUnauthorized = None, opt_headers = base_headers\<rparr>,
      written = []\<rparr>"
  by (simp add: request_def valid_db_url parse_db_url Let_def encode_post_data_def isBuffer_def
      truthy_def readable_def read_is_function_def toStringTag_def typeof_def host_name_def
      port_or_443_def lib_of_def write_out_def chunk_truthy_def base_headers_def)

subsection \<open>The two calling conventions\<close>












lemma january_length:
  "byteLength (JSON_stringify (JObj [(''name'', JStr ''January''), (''number'', JNum 1)])) = 29"
  by (simp add: byteLength_def utf8_bytes_def JSON_quote_def json_escape_char_def show_int_def
      digit_char_def)






subsection \<open>One settlement per call\<close>





























text \<open>
  Two observations beside the claims: \<^verbatim>\<open>copyDocument\<close> without a new id returns
  \<^verbatim>\<open>undefined\<close>, no promise; and the headers a call of the factory's \<^verbatim>\<open>request\<close>
  writes stay in the client's \<^verbatim>\<open>httpOptions\<close> for the calls that follow.
\<close>

lemma copyDocument_without_id:
  "newDocId = [] \<Longrightarrow> fst (call_factory rt cl (CopyDocument dbName docId newDocId)) = Returned_undefined"
  by (simp add: call_factory_def)

lemma factory_headers_persist:
  "fst (call_factory sample_node
         (snd (call_factory sample_node sample_client
                 (CreateDocument ''db'' (PObject [(''name'', JStr ''January''), (''number'', JNum 1)]) None)))
         GetInfo) =
   Issued
     \<lparr>lib = Http,
      options =
        \<lparr>opt_hostname = Some ''localhost'', opt_port = PortString ''5984'', opt_path = Some ''/'',
         opt_auth = None, opt_protocol = Some ''http:'', opt_method = Some ''GET'',
         opt_rejectUnauthorized = Some True,
         opt_headers =
           [(''user-agent'', HString ''couchdb-promises''), (''accept'', HString ''application/json''),
            (''content-type'', HString ''application/json''), (''content-length'', HNumber 29)]\<rparr>,
      written = []\<rparr>"
proof -
  have nb: "no_branch PUndefined"
    by (simp add: no_branch_cases)
  show ?thesis
    by (simp add: call_factory_def truthy_string_def request_f_def Let_def encode_f_kinds
        encode_kinds encode_other(2) [OF nb] truthy_def sample_client_def base_headers_def lib_of_def
        write_out_def chunk_truthy_def january_length del: JSON_stringify.simps)
qed

end
